theory Spec2Isabelle
  imports Main "HOL-Library.Sublist"
begin

unbundle bit_operations_syntax

section \<open>Data model\<close>

subsection \<open>OAuth types (types/oauth.ts)\<close>

text \<open>
  JavaScript strings are modelled as \<open>string\<close>, \<open>string | null\<close> and optional string
  fields as \<open>string option\<close>, and numbers (seconds, milliseconds since the epoch, HTTP
  status codes) as \<open>int\<close>.
\<close>

record TokenResponse =
  access_token :: string
  token_type :: string
  expires_in :: "int option"
  refresh_token :: "string option"
  id_token :: "string option"
  scope :: "string option"

text \<open>The field \<open>scope\<close> of the source's \<open>TokenState\<close> is \<open>grantedScope\<close> here.\<close>

record TokenState =
  accessToken :: string
  refreshToken :: "string option"
  idToken :: "string option"
  expiresAt :: "int option"
  grantedScope :: "string option"

datatype AuthErrorCode =
    invalid_state
  | token_exchange_failed
  | token_refresh_failed
  | invalid_token
  | network_error
  | storage_error
  | configuration_error
  | callback_error

text \<open>
  The \<open>details\<close> of an error are \<open>unknown\<close> in the source; the four shapes that
  \<open>exchangeCodeForTokens\<close> builds are the constructors.
\<close>

datatype ErrorDetails =
    NoDetails
  | CallbackDetails string "string option"
  | ResponseData TokenResponse
  | Thrown string

record AuthError =
  code :: AuthErrorCode
  message :: string
  details :: ErrorDetails

definition createAuthError :: "AuthErrorCode \<Rightarrow> string \<Rightarrow> ErrorDetails \<Rightarrow> AuthError" where
  "createAuthError c m d = \<lparr>code = c, message = m, details = d\<rparr>"

record ('j, 'u) AuthState =
  isAuthenticated :: bool
  isLoading :: bool
  jwt :: "'j option"
  user :: "'u option"
  error :: "AuthError option"

subsection \<open>Storage (types/storage.ts, storage/memory.ts)\<close>

text \<open>
  A storage adapter is the in-memory backend: a map from keys to values, with the four
  operations of \<open>createMemoryStorageAdapter\<close>.
\<close>

type_synonym 'v StorageAdapter = "string \<rightharpoonup> 'v"

definition storage_get :: "'v StorageAdapter \<Rightarrow> string \<Rightarrow> 'v option" where
  "storage_get store k = store k"

definition storage_set :: "'v StorageAdapter \<Rightarrow> string \<Rightarrow> 'v \<Rightarrow> 'v StorageAdapter" where
  "storage_set store k v = store(k \<mapsto> v)"

definition storage_remove :: "'v StorageAdapter \<Rightarrow> string \<Rightarrow> 'v StorageAdapter" where
  "storage_remove store k = store(k := None)"

definition storage_clear :: "'v StorageAdapter \<Rightarrow> 'v StorageAdapter" where
  "storage_clear store = Map.empty"

abbreviation TOKENS :: string where "TOKENS \<equiv> ''tokens''"
abbreviation CODE_VERIFIER :: string where "CODE_VERIFIER \<equiv> ''codeVerifier''"
abbreviation STATE :: string where "STATE \<equiv> ''state''"
abbreviation REDIRECT_URI :: string where "REDIRECT_URI \<equiv> ''redirectUri''"
abbreviation PRE_AUTH_PATH :: string where "PRE_AUTH_PATH \<equiv> ''preAuthPath''"
abbreviation PREVIOUS_AUTH_CODE :: string where "PREVIOUS_AUTH_CODE \<equiv> ''previousAuthCode''"

text \<open>
  Token storage holds text written by \<open>JSON.stringify\<close> and read by \<open>JSON.parse\<close>.
  A stored text is \<open>Json t\<close> when it is the serialisation of the token state \<open>t\<close>
  (parsing gives \<open>t\<close> back), and \<open>Malformed s\<close> when it is a text \<open>s\<close> that
  \<open>JSON.parse\<close> rejects or the empty text.
\<close>

datatype StoredJson = Json TokenState | Malformed string

definition JSON_stringify :: "TokenState \<Rightarrow> StoredJson" where
  "JSON_stringify t = Json t"

fun JSON_parse :: "StoredJson \<Rightarrow> TokenState option" where
  "JSON_parse (Json t) = Some t"
| "JSON_parse (Malformed s) = None"

record StorageConfig =
  tokenStorage :: "StoredJson StorageAdapter"
  flowStorage :: "string StorageAdapter"

subsection \<open>Provider configuration (types/provider.ts)\<close>

record ProviderEndpoints =
  authorizationEndpoint :: string
  tokenEndpoint :: string
  logoutEndpoint :: "string option"
  userInfoEndpoint :: "string option"
  revocationEndpoint :: "string option"

text \<open>A \<open>Record<string, string>\<close> is an association list in insertion order.\<close>

record ProviderConfig =
  issuer :: string
  clientId :: string
  redirectUri :: string
  scopes :: "string list"
  endpoints :: ProviderEndpoints
  postLogoutRedirectUri :: "string option"
  additionalAuthParams :: "(string \<times> string) list option"

subsection \<open>The platform: URLs, the window, the clock\<close>

text \<open>
  A parsed \<open>URL\<close> object: its origin, its path, and the entries of its
  \<open>searchParams\<close> in order.
\<close>

record URL =
  origin :: string
  pathname :: string
  searchParams :: "(string \<times> string) list"

record Window =
  href :: string
  currentPath :: string
  currentOrigin :: string

text \<open>
  The platform the code runs on: the constructors \<open>new URL(s)\<close> and
  \<open>new URL(s, base)\<close> (\<open>None\<close> when they throw), the global \<open>window\<close>
  (\<open>None\<close> outside a browser), \<open>Date.now()\<close>, and the digest
  \<open>bytesToBase64Url(sha256(s))\<close> of the SHA-256 library.
\<close>

record Platform =
  URL_new :: "string \<Rightarrow> URL option"
  URL_new_base :: "string \<Rightarrow> string \<Rightarrow> URL option"
  window :: "Window option"
  Date_now :: int
  sha256_base64url :: "string \<Rightarrow> string"

definition searchParams_get :: "(string \<times> string) list \<Rightarrow> string \<Rightarrow> string option" where
  "searchParams_get ps k = map_of ps k"

text \<open>
  \<open>URLSearchParams.set\<close>: the first entry of the key takes the value and the other
  entries of the key are deleted; a new key is appended.
\<close>

fun searchParams_set :: "(string \<times> string) list \<Rightarrow> string \<Rightarrow> string \<Rightarrow> (string \<times> string) list" where
  "searchParams_set [] k v = [(k, v)]"
| "searchParams_set ((k', v') # ps) k v =
     (if k' = k then (k, v) # filter (\<lambda>e. fst e \<noteq> k) ps
      else (k', v') # searchParams_set ps k v)"

text \<open>The truth value of a \<open>string | null\<close>: null and the empty string are falsy.\<close>

fun truthy :: "string option \<Rightarrow> string option" where
  "truthy None = None"
| "truthy (Some s) = (if s = [] then None else Some s)"

section \<open>State parameter (crypto/state.ts)\<close>

text \<open>
  \<open>charCodeAt\<close> is the code of the character at a position; the characters of
  \<open>string\<close> have the codes 0 to 255. \<open>validateState\<close> calls it only at positions
  inside both strings, after the test of the lengths.
\<close>

definition charCodeAt :: "string \<Rightarrow> nat \<Rightarrow> int" where
  "charCodeAt s i = of_char (s ! i)"

text \<open>The loop \<open>for (let i = 0; i < receivedState.length; i++) result |= ...\<close>.\<close>

function validateState_loop :: "string \<Rightarrow> string \<Rightarrow> nat \<Rightarrow> int \<Rightarrow> int" where
  "validateState_loop receivedState storedState i result =
     (if i < length receivedState
      then validateState_loop receivedState storedState (i + 1)
             (result OR (charCodeAt receivedState i XOR charCodeAt storedState i))
      else result)"
  by pat_completeness auto
termination
  by (relation "measure (\<lambda>(r, s, i, result). length r - i)") auto

declare validateState_loop.simps [simp del]

definition validateState :: "string option \<Rightarrow> string option \<Rightarrow> bool" where
  "validateState receivedState storedState =
     (case (truthy receivedState, truthy storedState) of
        (Some r, Some s) \<Rightarrow>
          if length r \<noteq> length s then False
          else validateState_loop r s 0 0 = 0
      | _ \<Rightarrow> False)"

section \<open>URL utilities (utils/url.ts)\<close>

record CallbackParams =
  cb_code :: "string option"
  cb_state :: "string option"
  cb_error :: "string option"
  cb_errorDescription :: "string option"

definition parseCallbackUrl :: "Platform \<Rightarrow> string option \<Rightarrow> CallbackParams" where
  "parseCallbackUrl pf given =
     (let urlToParse =
            (case given of
               Some u \<Rightarrow> u
             | None \<Rightarrow> (case window pf of Some w \<Rightarrow> href w | None \<Rightarrow> ''''))
      in case URL_new pf urlToParse of
           Some parsedUrl \<Rightarrow>
             \<lparr>cb_code = searchParams_get (searchParams parsedUrl) ''code'',
              cb_state = searchParams_get (searchParams parsedUrl) ''state'',
              cb_error = searchParams_get (searchParams parsedUrl) ''error'',
              cb_errorDescription = searchParams_get (searchParams parsedUrl) ''error_description''\<rparr>
         | None \<Rightarrow>
             \<lparr>cb_code = None, cb_state = None, cb_error = None, cb_errorDescription = None\<rparr>)"

definition isCallbackUrl :: "Platform \<Rightarrow> string \<Rightarrow> string option \<Rightarrow> bool" where
  "isCallbackUrl pf redirect given =
     (let urlToCheck =
            (case given of
               Some u \<Rightarrow> u
             | None \<Rightarrow> (case window pf of Some w \<Rightarrow> href w | None \<Rightarrow> ''''))
      in case URL_new pf urlToCheck of
           None \<Rightarrow> False
         | Some parsedUrl \<Rightarrow>
             (let cb = parseCallbackUrl pf (Some urlToCheck)
              in case URL_new_base pf redirect (origin parsedUrl) of
                   None \<Rightarrow> False
                 | Some r \<Rightarrow>
                     pathname parsedUrl = pathname r
                     \<and> (cb_code cb \<noteq> None \<or> cb_error cb \<noteq> None)))"

text \<open>
  \<open>buildUrl\<close>: \<open>None\<close> when \<open>new URL(baseUrl)\<close> throws. The result is the URL object
  whose \<open>toString()\<close> the source returns.
\<close>

definition buildUrl :: "Platform \<Rightarrow> string \<Rightarrow> (string \<times> string option) list \<Rightarrow> URL option" where
  "buildUrl pf baseUrl params =
     (case URL_new pf baseUrl of
        None \<Rightarrow> None
      | Some u \<Rightarrow>
          Some (u\<lparr>searchParams :=
                   fold (\<lambda>(k, v) ps. case v of Some x \<Rightarrow> searchParams_set ps k x | None \<Rightarrow> ps)
                        params (searchParams u)\<rparr>))"

definition getCurrentPath :: "Platform \<Rightarrow> string" where
  "getCurrentPath pf = (case window pf of None \<Rightarrow> ''/'' | Some w \<Rightarrow> currentPath w)"

definition getCurrentOrigin :: "Platform \<Rightarrow> string" where
  "getCurrentOrigin pf = (case window pf of None \<Rightarrow> '''' | Some w \<Rightarrow> currentOrigin w)"

section \<open>Token engine (oauth/token.ts)\<close>

text \<open>Decimal digits of a number, for the template string of the status message.\<close>

fun show_nat :: "nat \<Rightarrow> string" where
  "show_nat n =
     (if n < 10 then [char_of (48 + n)]
      else show_nat (n div 10) @ [char_of (48 + n mod 10)])"

definition show_int :: "int \<Rightarrow> string" where
  "show_int i = (if i < 0 then ''-'' @ show_nat (nat (- i)) else show_nat (nat i))"

text \<open>\<open>Array.prototype.join\<close>.\<close>

fun join :: "string \<Rightarrow> string list \<Rightarrow> string" where
  "join sep [] = []"
| "join sep [x] = x"
| "join sep (x # y # ys) = x @ sep @ join sep (y # ys)"

definition parseTokenResponse :: "Platform \<Rightarrow> TokenResponse \<Rightarrow> TokenState" where
  "parseTokenResponse pf response =
     \<lparr>accessToken = access_token response,
      refreshToken = refresh_token response,
      idToken = id_token response,
      expiresAt =
        (case expires_in response of
           Some n \<Rightarrow> if n \<noteq> 0 then Some (Date_now pf + n * 1000) else None
         | None \<Rightarrow> None),
      grantedScope = scope response\<rparr>"

definition storeTokens :: "TokenState \<Rightarrow> StorageConfig \<Rightarrow> StorageConfig" where
  "storeTokens tokens storage =
     storage\<lparr>tokenStorage := storage_set (tokenStorage storage) TOKENS (JSON_stringify tokens)\<rparr>"

definition getStoredTokens :: "StorageConfig \<Rightarrow> TokenState option" where
  "getStoredTokens storage =
     (case storage_get (tokenStorage storage) TOKENS of
        None \<Rightarrow> None
      | Some stored \<Rightarrow> JSON_parse stored)"

definition clearTokens :: "StorageConfig \<Rightarrow> StorageConfig" where
  "clearTokens storage =
     storage\<lparr>tokenStorage := storage_clear (tokenStorage storage),
             flowStorage := storage_clear (flowStorage storage)\<rparr>"

subsection \<open>HTTP client (types/http.ts)\<close>

datatype HttpMethod = GET | POST

record HttpRequest =
  req_url :: string
  req_method :: HttpMethod
  req_headers :: "(string \<times> string) list"
  req_body :: "(string \<times> string) list"

text \<open>
  What \<open>httpClient.request\<close> does with a request: its promise is rejected with a
  reason, or fulfilled with a response \<open>{status, data}\<close>, the data typed
  \<open>TokenResponse\<close> as at both call sites.
\<close>

datatype HttpOutcome = Rejects string | Resolves int TokenResponse

type_synonym HttpClient = "HttpRequest \<Rightarrow> HttpOutcome"

subsection \<open>Exchange of the authorization code\<close>

text \<open>The request that \<open>exchangeCodeForTokens\<close> builds and sends.\<close>

definition exchangeRequest :: "ProviderConfig \<Rightarrow> string \<Rightarrow> string \<Rightarrow> string \<Rightarrow> HttpRequest" where
  "exchangeRequest provider redirect c verifier =
     \<lparr>req_url = tokenEndpoint (endpoints provider),
      req_method = POST,
      req_headers = [(''Content-Type'', ''application/x-www-form-urlencoded'')],
      req_body =
        [(''grant_type'', ''authorization_code''),
         (''client_id'', clientId provider),
         (''redirect_uri'', redirect),
         (''code'', c),
         (''code_verifier'', verifier)]\<rparr>"

datatype ExchangeResult = Success TokenState string | Failure AuthError

text \<open>
  \<open>exchangeCodeForTokens\<close> returns its result, the storage as it leaves it, and the
  requests it sent to the HTTP client, in order.
\<close>

definition exchangeCodeForTokens ::
  "Platform \<Rightarrow> ProviderConfig \<Rightarrow> StorageConfig \<Rightarrow> HttpClient \<Rightarrow> string option
     \<Rightarrow> ExchangeResult \<times> StorageConfig \<times> HttpRequest list" where
  "exchangeCodeForTokens pf provider storage httpClient given =
     (let cb = parseCallbackUrl pf given in
      case truthy (cb_error cb) of
        Some e \<Rightarrow>
          (Failure (createAuthError callback_error
                      (case cb_errorDescription cb of Some d \<Rightarrow> d | None \<Rightarrow> e)
                      (CallbackDetails e (cb_errorDescription cb))),
           storage, [])
      | None \<Rightarrow>
      (case truthy (cb_code cb) of
        None \<Rightarrow>
          (Failure (createAuthError callback_error
                      ''No authorization code in callback URL'' NoDetails),
           storage, [])
      | Some c \<Rightarrow>
      (let storedState = storage_get (flowStorage storage) STATE in
       if \<not> validateState (cb_state cb) storedState then
          (Failure (createAuthError invalid_state
                      ''State parameter mismatch - possible CSRF attack'' NoDetails),
           storage, [])
       else
      (case truthy (storage_get (flowStorage storage) CODE_VERIFIER) of
        None \<Rightarrow>
          (Failure (createAuthError token_exchange_failed
                      ''Code verifier not found in storage'' NoDetails),
           storage, [])
      | Some verifier \<Rightarrow>
      (let redirect =
             (case storage_get (flowStorage storage) REDIRECT_URI of
                Some r \<Rightarrow> r | None \<Rightarrow> redirectUri provider);
           preAuthPath =
             (case storage_get (flowStorage storage) PRE_AUTH_PATH of
                Some p \<Rightarrow> p | None \<Rightarrow> ''/'');
           previousCode = storage_get (flowStorage storage) PREVIOUS_AUTH_CODE
       in
       if previousCode = Some c then
          (Failure (createAuthError token_exchange_failed
                      ''Authorization code already exchanged'' NoDetails),
           storage, [])
       else
      (let storage1 = storage\<lparr>flowStorage :=
                         storage_set (flowStorage storage) PREVIOUS_AUTH_CODE c\<rparr>;
           request = exchangeRequest provider redirect c verifier
       in
       case httpClient request of
         Rejects err \<Rightarrow>
           (Failure (createAuthError network_error
                       ''Failed to exchange authorization code'' (Thrown err)),
            storage1, [request])
       | Resolves status data \<Rightarrow>
           if status \<noteq> 200 then
             (Failure (createAuthError token_exchange_failed
                         (''Token exchange failed with status '' @ show_int status)
                         (ResponseData data)),
              storage1, [request])
           else
             (let tokens = parseTokenResponse pf data;
                  storage2 = storeTokens tokens storage1;
                  flow3 = storage_remove (flowStorage storage2) CODE_VERIFIER;
                  flow4 = storage_remove flow3 STATE;
                  flow5 = storage_remove flow4 REDIRECT_URI;
                  flow6 = storage_remove flow5 PRE_AUTH_PATH
              in (Success tokens preAuthPath, storage2\<lparr>flowStorage := flow6\<rparr>,
                  [request]))))))))"

subsection \<open>Refresh of the access token\<close>

text \<open>The request that \<open>refreshAccessToken\<close> builds and sends.\<close>

definition refreshRequest :: "ProviderConfig \<Rightarrow> string \<Rightarrow> HttpRequest" where
  "refreshRequest provider rt =
     \<lparr>req_url = tokenEndpoint (endpoints provider),
      req_method = POST,
      req_headers = [(''Content-Type'', ''application/x-www-form-urlencoded'')],
      req_body =
        [(''grant_type'', ''refresh_token''),
         (''client_id'', clientId provider),
         (''refresh_token'', rt),
         (''scope'', join '' '' (scopes provider))]\<rparr>"

definition refreshAccessToken ::
  "Platform \<Rightarrow> ProviderConfig \<Rightarrow> StorageConfig \<Rightarrow> HttpClient
     \<Rightarrow> TokenState option \<times> StorageConfig \<times> HttpRequest list" where
  "refreshAccessToken pf provider storage httpClient =
     (case getStoredTokens storage of
        None \<Rightarrow> (None, storage, [])
      | Some currentTokens \<Rightarrow>
      (case truthy (refreshToken currentTokens) of
        None \<Rightarrow> (None, storage, [])
      | Some rt \<Rightarrow>
      (let request = refreshRequest provider rt
       in
       case httpClient request of
         Rejects err \<Rightarrow> (None, storage, [request])
       | Resolves status data \<Rightarrow>
           if status \<noteq> 200 then (None, storage, [request])
           else
             (let tokens = parseTokenResponse pf data
              in (Some tokens, storeTokens tokens storage, [request])))))"

section \<open>PKCE (crypto/pkce.ts)\<close>

record PKCEPair =
  codeVerifier :: string
  codeChallenge :: string

text \<open>
  The random draws of one authorization attempt: what \<open>generateCodeVerifier()\<close> and
  \<open>generateState()\<close> return.
\<close>

record Randomness =
  nextCodeVerifier :: string
  nextState :: string

definition generateCodeVerifier :: "Randomness \<Rightarrow> string" where
  "generateCodeVerifier rnd = nextCodeVerifier rnd"

definition generateCodeChallenge :: "Platform \<Rightarrow> string \<Rightarrow> string" where
  "generateCodeChallenge pf v = sha256_base64url pf v"

definition generatePKCEPair :: "Platform \<Rightarrow> Randomness \<Rightarrow> PKCEPair" where
  "generatePKCEPair pf rnd =
     (let v = generateCodeVerifier rnd
      in \<lparr>codeVerifier = v, codeChallenge = generateCodeChallenge pf v\<rparr>)"

definition PKCE_CHALLENGE_METHOD :: string where
  "PKCE_CHALLENGE_METHOD = ''S256''"

definition generateState :: "Randomness \<Rightarrow> string" where
  "generateState rnd = nextState rnd"

section \<open>Authorization request (oauth/authorize.ts)\<close>

datatype Prompt = PromptLogin | PromptConsent | PromptNone

fun prompt_text :: "Prompt \<Rightarrow> string" where
  "prompt_text PromptLogin = ''login''"
| "prompt_text PromptConsent = ''consent''"
| "prompt_text PromptNone = ''none''"

record AuthorizeOptions =
  preservePath :: bool
  prompt :: "Prompt option"
  additionalParams :: "(string \<times> string) list option"

text \<open>
  A JavaScript object is the list of its properties in insertion order. Assigning a
  property that exists replaces its value in place; a new property goes to the end.
  \<open>spread\<close> is \<open>{...obj, ...src}\<close>, where spreading \<open>undefined\<close> adds nothing.
\<close>

fun obj_put :: "(string \<times> 'v) list \<Rightarrow> string \<Rightarrow> 'v \<Rightarrow> (string \<times> 'v) list" where
  "obj_put [] k v = [(k, v)]"
| "obj_put ((k', v') # ps) k v =
     (if k' = k then (k', v) # ps else (k', v') # obj_put ps k v)"

fun spread :: "(string \<times> string option) list \<Rightarrow> (string \<times> string) list option
                 \<Rightarrow> (string \<times> string option) list" where
  "spread obj None = obj"
| "spread obj (Some src) = fold (\<lambda>(k, v) acc. obj_put acc k (Some v)) src obj"

text \<open>\<open>Object.keys\<close> of an object that may be undefined.\<close>

fun Object_keys :: "(string \<times> 'v) list option \<Rightarrow> string list" where
  "Object_keys None = []"
| "Object_keys (Some obj) = map fst obj"

text \<open>
  \<open>buildAuthorizationUrl\<close> returns the URL (\<open>None\<close> when \<open>buildUrl\<close> throws) and
  the storage as it leaves it.
\<close>

definition buildAuthorizationUrl ::
  "Platform \<Rightarrow> Randomness \<Rightarrow> ProviderConfig \<Rightarrow> StorageConfig \<Rightarrow> AuthorizeOptions
     \<Rightarrow> URL option \<times> StorageConfig" where
  "buildAuthorizationUrl pf rnd provider storage options =
     (let pair = generatePKCEPair pf rnd;
          st = generateState rnd;
          preAuthPath = (if preservePath options then Some (getCurrentPath pf) else None);
          flow1 = storage_set (flowStorage storage) CODE_VERIFIER (codeVerifier pair);
          flow2 = storage_set flow1 STATE st;
          flow3 = storage_set flow2 REDIRECT_URI (redirectUri provider);
          flow4 = (case truthy preAuthPath of
                     Some p \<Rightarrow> storage_set flow3 PRE_AUTH_PATH p
                   | None \<Rightarrow> flow3);
          params =
            spread
              (spread
                 [(''client_id'', Some (clientId provider)),
                  (''response_type'', Some ''code''),
                  (''scope'', Some (join '' '' (scopes provider))),
                  (''redirect_uri'', Some (redirectUri provider)),
                  (''code_challenge'', Some (codeChallenge pair)),
                  (''code_challenge_method'', Some PKCE_CHALLENGE_METHOD),
                  (''state'', Some st),
                  (''prompt'', map_option prompt_text (prompt options))]
                 (additionalAuthParams provider))
              (additionalParams options)
      in (buildUrl pf (authorizationEndpoint (endpoints provider)) params,
          storage\<lparr>flowStorage := flow4\<rparr>))"

section \<open>Logout (oauth/logout.ts)\<close>

record LogoutOptions =
  redirect_opt :: "bool option"
  localOnly_opt :: "bool option"

text \<open>
  What \<open>buildLogoutUrl\<close> and \<open>logout\<close> end in: no URL and no navigation, a URL
  (to which \<open>logout\<close> navigates), or the exception of \<open>buildUrl\<close>.
\<close>

datatype Navigation = NoNavigation | NavigateTo URL | NavigationThrows

definition buildLogoutUrl :: "Platform \<Rightarrow> ProviderConfig \<Rightarrow> string option \<Rightarrow> Navigation" where
  "buildLogoutUrl pf provider hint =
     (case truthy (logoutEndpoint (endpoints provider)) of
        None \<Rightarrow> NoNavigation
      | Some endpoint \<Rightarrow>
          (let params =
                 [(''post_logout_redirect_uri'',
                   Some (case postLogoutRedirectUri provider of
                           Some uri \<Rightarrow> uri
                         | None \<Rightarrow> getCurrentOrigin pf))];
               params' = (case truthy hint of
                            Some t \<Rightarrow> obj_put params ''id_token_hint'' (Some t)
                          | None \<Rightarrow> params)
           in case buildUrl pf endpoint params' of
                Some u \<Rightarrow> NavigateTo u
              | None \<Rightarrow> NavigationThrows))"

text \<open>
  \<open>logout\<close> returns the storage as it leaves it, cleared before anything else, and
  the navigation it ends in.
\<close>

definition logout ::
  "Platform \<Rightarrow> ProviderConfig \<Rightarrow> StorageConfig \<Rightarrow> LogoutOptions
     \<Rightarrow> StorageConfig \<times> Navigation" where
  "logout pf provider storage options =
     (let redirect = (case redirect_opt options of Some b \<Rightarrow> b | None \<Rightarrow> True);
          localOnly = (case localOnly_opt options of Some b \<Rightarrow> b | None \<Rightarrow> False);
          hint = (case getStoredTokens storage of
                    Some tokens \<Rightarrow> idToken tokens
                  | None \<Rightarrow> None);
          storage1 = clearTokens storage
      in if redirect \<and> \<not> localOnly \<and> window pf \<noteq> None
         then (storage1, buildLogoutUrl pf provider hint)
         else (storage1, NoNavigation))"

section \<open>Refresh coordinator (oauth/token.ts)\<close>

text \<open>
  The coordinator in the event loop. A promise is named by a number; the coordinator's
  field \<open>refreshPromise\<close> holds the promise in flight, or null. \<open>invocations\<close> counts
  the calls of \<open>refreshFn\<close>: its \<open>n\<close>-th call returns promise \<open>n\<close>. \<open>settled\<close>
  records the outcome of every promise that has settled.
\<close>

datatype 'r Settlement = Fulfilled 'r | Rejected string

record 'r Coordinator =
  refreshPromise :: "nat option"
  invocations :: nat
  settled :: "nat \<rightharpoonup> 'r Settlement"

definition newCoordinator :: "'r Coordinator" where
  "newCoordinator = \<lparr>refreshPromise = None, invocations = 0, settled = Map.empty\<rparr>"

text \<open>A call of \<open>refresh(refreshFn)\<close>: the promise handed to the caller, and the coordinator after.\<close>

definition refresh :: "'r Coordinator \<Rightarrow> nat \<times> 'r Coordinator" where
  "refresh co =
     (case refreshPromise co of
        Some p \<Rightarrow> (p, co)
      | None \<Rightarrow>
          (let p = invocations co
           in (p, co\<lparr>refreshPromise := Some p, invocations := invocations co + 1\<rparr>)))"

text \<open>
  The promise of \<open>refreshFn\<close> settles with an outcome: the \<open>finally\<close> handler sets
  \<open>refreshPromise\<close> to null, and the promise handed to the callers has that outcome.
\<close>

definition settle :: "'r Settlement \<Rightarrow> 'r Coordinator \<Rightarrow> 'r Coordinator" where
  "settle outcome co =
     (case refreshPromise co of
        None \<Rightarrow> co
      | Some p \<Rightarrow> co\<lparr>refreshPromise := None, settled := (settled co)(p \<mapsto> outcome)\<rparr>)"

definition isRefreshing :: "'r Coordinator \<Rightarrow> bool" where
  "isRefreshing co = (refreshPromise co \<noteq> None)"

text \<open>\<open>n\<close> calls of \<open>refresh\<close> one after another, none of them awaited: the promises handed out.\<close>

fun refresh_calls :: "nat \<Rightarrow> 'r Coordinator \<Rightarrow> nat list \<times> 'r Coordinator" where
  "refresh_calls 0 co = ([], co)"
| "refresh_calls (Suc n) co =
     (let (p, co1) = refresh co; (ps, co2) = refresh_calls n co1 in (p # ps, co2))"

section \<open>Client (oauth/client.ts)\<close>

text \<open>
  The outcome of the caller's \<open>getUser\<close>: it throws, or returns a user or null.
\<close>

datatype 'u UserFetch = FetchThrows | Fetched "'u option"

text \<open>
  What a subscribed listener or a callback of the configuration does when it is called:
  it returns, or it throws. Listeners and callbacks observe their argument; they do not
  call back into the client.
\<close>

datatype CallbackOutcome = CallbackReturns | CallbackThrows string

text \<open>
  The configuration of a client. \<open>cfg_jwtDecode\<close> is the decoder of the JWT library
  (\<open>None\<close> when it throws); the three optional callbacks are \<open>onAuthStateChange\<close>,
  \<open>onTokenRefresh\<close> and \<open>onError\<close>.
\<close>

record ('j, 'u) OAuthClientConfig =
  cfg_provider :: ProviderConfig
  cfg_httpClient :: HttpClient
  cfg_getUser :: "(string \<Rightarrow> 'j option \<Rightarrow> 'u UserFetch) option"
  cfg_jwtDecode :: "string \<Rightarrow> 'j option"
  cfg_onAuthStateChange :: "(('j, 'u) AuthState \<Rightarrow> CallbackOutcome) option"
  cfg_onTokenRefresh :: "(TokenState \<Rightarrow> CallbackOutcome) option"
  cfg_onError :: "(AuthError \<Rightarrow> CallbackOutcome) option"

definition decodeJwt :: "('j, 'u) OAuthClientConfig \<Rightarrow> string \<Rightarrow> 'j option" where
  "decodeJwt cfg token = cfg_jwtDecode cfg token"

text \<open>
  The variables of the closure \<open>createOAuthClient\<close>: the state, the storage, the
  flag \<open>isInitialized\<close>, the set of listeners in insertion order (a listener is a
  function with its identity), the refresh coordinator, and the requests sent so far.
  Calls of the client's methods run one after the other, so \<open>initializePromise\<close> and
  \<open>handleCallbackPromise\<close> are null when a call starts.
\<close>

record ('j, 'u) Client =
  c_state :: "('j, 'u) AuthState"
  c_storage :: StorageConfig
  c_isInitialized :: bool
  c_requests :: "HttpRequest list"
  c_listeners :: "(nat \<times> (('j, 'u) AuthState \<Rightarrow> CallbackOutcome)) list"
  c_coordinator :: "TokenState option Coordinator"

text \<open>
  How a call of an asynchronous method ends: its promise is fulfilled with a value, it
  is rejected with what was thrown, or the call waits for a refresh promise that was in
  flight when it started.
\<close>

datatype 'r Completion = Returned 'r | Raised string | Awaits nat

text \<open>
  Sequencing, as \<open>await\<close> and the statement order do it: what follows runs on the
  value returned; an exception, or a wait, ends the call.
\<close>

fun andThen :: "'a Completion \<times> 'c \<Rightarrow> ('a \<Rightarrow> 'c \<Rightarrow> 'b Completion \<times> 'c) \<Rightarrow> 'b Completion \<times> 'c" where
  "andThen (Returned a, cl) f = f a cl"
| "andThen (Raised e, cl) f = (Raised e, cl)"
| "andThen (Awaits p, cl) f = (Awaits p, cl)"

text \<open>An optional callback called as \<open>callback?.(x)\<close>, and the call as a statement.\<close>

fun optional_call :: "('a \<Rightarrow> CallbackOutcome) option \<Rightarrow> 'a \<Rightarrow> CallbackOutcome" where
  "optional_call None x = CallbackReturns"
| "optional_call (Some f) x = f x"

fun statement :: "CallbackOutcome \<Rightarrow> 'c \<Rightarrow> unit Completion \<times> 'c" where
  "statement CallbackReturns cl = (Returned (), cl)"
| "statement (CallbackThrows e) cl = (Raised e, cl)"

text \<open>The loop \<open>for (const listener of listeners) listener(state)\<close>.\<close>

fun notify :: "(nat \<times> ('s \<Rightarrow> CallbackOutcome)) list \<Rightarrow> 's \<Rightarrow> CallbackOutcome" where
  "notify [] s = CallbackReturns"
| "notify (l # ls) s =
     (case snd l s of
        CallbackThrows e \<Rightarrow> CallbackThrows e
      | CallbackReturns \<Rightarrow> notify ls s)"

definition createOAuthClient :: "StorageConfig \<Rightarrow> ('j, 'u) Client" where
  "createOAuthClient storage =
     \<lparr>c_state = \<lparr>isAuthenticated = False, isLoading = True, jwt = None, user = None,
                  error = None\<rparr>,
      c_storage = storage,
      c_isInitialized = False,
      c_requests = [],
      c_listeners = [],
      c_coordinator = newCoordinator\<rparr>"

text \<open>
  \<open>setState\<close>: the state is assigned first, then the listeners are called, then
  \<open>onAuthStateChange\<close>. The updates are given as the function that merges them into
  a state.
\<close>

definition setState ::
  "('j, 'u) OAuthClientConfig \<Rightarrow> (('j, 'u) AuthState \<Rightarrow> ('j, 'u) AuthState)
     \<Rightarrow> ('j, 'u) Client \<Rightarrow> unit Completion \<times> ('j, 'u) Client" where
  "setState cfg updates cl =
     (let cl1 = cl\<lparr>c_state := updates (c_state cl)\<rparr>
      in andThen (statement (notify (c_listeners cl1) (c_state cl1)) cl1)
           (\<lambda>_ cl2. statement (optional_call (cfg_onAuthStateChange cfg) (c_state cl2)) cl2))"

definition handleError ::
  "('j, 'u) OAuthClientConfig \<Rightarrow> AuthError \<Rightarrow> ('j, 'u) Client
     \<Rightarrow> unit Completion \<times> ('j, 'u) Client" where
  "handleError cfg err cl =
     andThen (setState cfg (\<lambda>s. s\<lparr>error := Some err, isLoading := False\<rparr>) cl)
       (\<lambda>_ cl1. statement (optional_call (cfg_onError cfg) err) cl1)"

definition loadUserFromTokens ::
  "('j, 'u) OAuthClientConfig \<Rightarrow> TokenState \<Rightarrow> ('j, 'u) Client
     \<Rightarrow> unit Completion \<times> ('j, 'u) Client" where
  "loadUserFromTokens cfg tokens cl =
     (let decoded = (case truthy (idToken tokens) of
                       Some t \<Rightarrow> decodeJwt cfg t
                     | None \<Rightarrow> None);
          fetched = (case cfg_getUser cfg of
                       None \<Rightarrow> None
                     | Some getUser \<Rightarrow>
                         (case getUser (accessToken tokens) decoded of
                            Fetched u \<Rightarrow> u
                          | FetchThrows \<Rightarrow> None))
      in setState cfg
           (\<lambda>s. s\<lparr>isAuthenticated := True, isLoading := False, jwt := decoded,
                   user := fetched, error := None\<rparr>) cl)"

text \<open>
  The method \<open>refreshToken\<close> of the client. The refresh goes through the coordinator:
  when a refresh is in flight the call waits for its promise; otherwise
  \<open>refreshAccessToken\<close> is invoked, and its promise settles with its result.
\<close>

definition client_refreshToken ::
  "Platform \<Rightarrow> ('j, 'u) OAuthClientConfig \<Rightarrow> ('j, 'u) Client
     \<Rightarrow> bool Completion \<times> ('j, 'u) Client" where
  "client_refreshToken pf cfg cl =
     (case refresh (c_coordinator cl) of
        (p, co1) \<Rightarrow>
          if isRefreshing (c_coordinator cl) then (Awaits p, cl\<lparr>c_coordinator := co1\<rparr>)
          else
            (case refreshAccessToken pf (cfg_provider cfg) (c_storage cl) (cfg_httpClient cfg) of
               (result, storage1, sent) \<Rightarrow>
                 (let cl1 = cl\<lparr>c_storage := storage1, c_requests := c_requests cl @ sent,
                               c_coordinator := settle (Fulfilled result) co1\<rparr>
                  in case result of
                       Some tokens \<Rightarrow>
                         andThen (loadUserFromTokens cfg tokens cl1)
                           (\<lambda>_ cl2. andThen
                              (statement (optional_call (cfg_onTokenRefresh cfg) tokens) cl2)
                              (\<lambda>_ cl3. (Returned True, cl3)))
                     | None \<Rightarrow> (Returned False, cl1))))"

text \<open>
  The method \<open>handleCallback\<close>. After a successful exchange the source also replaces
  the current history entry by the pre-auth path, which changes none of the variables
  of the client.
\<close>

definition handleCallback ::
  "Platform \<Rightarrow> ('j, 'u) OAuthClientConfig \<Rightarrow> string option \<Rightarrow> ('j, 'u) Client
     \<Rightarrow> unit Completion \<times> ('j, 'u) Client" where
  "handleCallback pf cfg given cl =
     (if isAuthenticated (c_state cl) then (Returned (), cl)
      else
        andThen (setState cfg (\<lambda>s. s\<lparr>isLoading := True\<rparr>) cl)
          (\<lambda>_ cl0.
             case exchangeCodeForTokens pf (cfg_provider cfg) (c_storage cl0)
                    (cfg_httpClient cfg) given of
               (result, storage1, sent) \<Rightarrow>
                 (let cl1 = cl0\<lparr>c_storage := storage1, c_requests := c_requests cl0 @ sent\<rparr>
                  in case result of
                       Failure err \<Rightarrow> handleError cfg err cl1
                     | Success tokens preAuthPath \<Rightarrow> loadUserFromTokens cfg tokens cl1)))"

text \<open>
  The method \<open>initialize\<close>: \<open>isInitialized\<close> is set only when the body has returned.
\<close>

definition initialize ::
  "Platform \<Rightarrow> ('j, 'u) OAuthClientConfig \<Rightarrow> ('j, 'u) Client
     \<Rightarrow> unit Completion \<times> ('j, 'u) Client" where
  "initialize pf cfg cl =
     (if c_isInitialized cl then (Returned (), cl)
      else
        andThen
          (if isCallbackUrl pf (redirectUri (cfg_provider cfg)) None
           then handleCallback pf cfg None cl
           else
             (case getStoredTokens (c_storage cl) of
                None \<Rightarrow> setState cfg (\<lambda>s. s\<lparr>isLoading := False\<rparr>) cl
              | Some tokens \<Rightarrow>
                  (case expiresAt tokens of
                     None \<Rightarrow> loadUserFromTokens cfg tokens cl
                   | Some e \<Rightarrow>
                       if e \<noteq> 0 \<and> e < Date_now pf then
                         andThen (client_refreshToken pf cfg cl)
                           (\<lambda>refreshed cl1.
                              if \<not> refreshed then
                                setState cfg (\<lambda>s. s\<lparr>isLoading := False\<rparr>)
                                  (cl1\<lparr>c_storage := clearTokens (c_storage cl1)\<rparr>)
                              else setState cfg (\<lambda>s. s\<lparr>isLoading := False\<rparr>) cl1)
                       else loadUserFromTokens cfg tokens cl)))
          (\<lambda>_ cl1. (Returned (), cl1\<lparr>c_isInitialized := True\<rparr>)))"

definition getAccessToken ::
  "Platform \<Rightarrow> ('j, 'u) OAuthClientConfig \<Rightarrow> ('j, 'u) Client
     \<Rightarrow> string option Completion \<times> ('j, 'u) Client" where
  "getAccessToken pf cfg cl =
     (case getStoredTokens (c_storage cl) of
        None \<Rightarrow> (Returned None, cl)
      | Some tokens \<Rightarrow>
          (let expirationBuffer = 60 * 1000;
               due = (case expiresAt tokens of
                        None \<Rightarrow> False
                      | Some e \<Rightarrow> e \<noteq> 0 \<and> e - expirationBuffer < Date_now pf)
           in if due then
                andThen (client_refreshToken pf cfg cl)
                  (\<lambda>refreshed cl1.
                     if \<not> refreshed then (Returned None, cl1)
                     else
                       (case getStoredTokens (c_storage cl1) of
                          Some newTokens \<Rightarrow> (Returned (Some (accessToken newTokens)), cl1)
                        | None \<Rightarrow> (Returned None, cl1)))
              else (Returned (Some (accessToken tokens)), cl)))"

text \<open>
  The methods \<open>authorize\<close> and \<open>logout\<close> of the client. When \<open>buildUrl\<close> throws,
  the storage has been written (or cleared) and the state is left as it was.
\<close>

definition client_authorize ::
  "Platform \<Rightarrow> Randomness \<Rightarrow> ('j, 'u) OAuthClientConfig \<Rightarrow> AuthorizeOptions
     \<Rightarrow> ('j, 'u) Client \<Rightarrow> unit Completion \<times> ('j, 'u) Client" where
  "client_authorize pf rnd cfg options cl =
     (case buildAuthorizationUrl pf rnd (cfg_provider cfg) (c_storage cl) options of
        (None, storage1) \<Rightarrow> (Raised ''Invalid URL'', cl\<lparr>c_storage := storage1\<rparr>)
      | (Some u, storage1) \<Rightarrow> (Returned (), cl\<lparr>c_storage := storage1\<rparr>))"

definition client_logout ::
  "Platform \<Rightarrow> ('j, 'u) OAuthClientConfig \<Rightarrow> LogoutOptions \<Rightarrow> ('j, 'u) Client
     \<Rightarrow> unit Completion \<times> ('j, 'u) Client" where
  "client_logout pf cfg options cl =
     (case logout pf (cfg_provider cfg) (c_storage cl) options of
        (storage1, NavigationThrows) \<Rightarrow> (Raised ''Invalid URL'', cl\<lparr>c_storage := storage1\<rparr>)
      | (storage1, navigation) \<Rightarrow>
          setState cfg
            (\<lambda>s. s\<lparr>isAuthenticated := False, jwt := None, user := None, error := None\<rparr>)
            (cl\<lparr>c_storage := storage1\<rparr>))"

text \<open>
  \<open>subscribe\<close> adds a listener to the set, and the function it returns deletes it.
\<close>

definition subscribe ::
  "nat \<times> (('j, 'u) AuthState \<Rightarrow> CallbackOutcome) \<Rightarrow> ('j, 'u) Client \<Rightarrow> ('j, 'u) Client" where
  "subscribe listener cl =
     (if fst listener \<in> set (map fst (c_listeners cl)) then cl
      else cl\<lparr>c_listeners := c_listeners cl @ [listener]\<rparr>)"

definition unsubscribe :: "nat \<Rightarrow> ('j, 'u) Client \<Rightarrow> ('j, 'u) Client" where
  "unsubscribe i cl = cl\<lparr>c_listeners := filter (\<lambda>l. fst l \<noteq> i) (c_listeners cl)\<rparr>"

text \<open>
  The calls a user of the client can make, each with the platform at the time of the
  call.
\<close>

datatype ('j, 'u) ClientCall =
    Initialize Platform
  | Authorize Platform Randomness AuthorizeOptions
  | HandleCallback Platform "string option"
  | RefreshToken Platform
  | GetAccessToken Platform
  | Logout Platform LogoutOptions
  | Subscribe "nat \<times> (('j, 'u) AuthState \<Rightarrow> CallbackOutcome)"
  | Unsubscribe nat

fun call :: "('j, 'u) OAuthClientConfig \<Rightarrow> ('j, 'u) ClientCall \<Rightarrow> ('j, 'u) Client
               \<Rightarrow> ('j, 'u) Client" where
  "call cfg (Initialize pf) cl = snd (initialize pf cfg cl)"
| "call cfg (Authorize pf rnd options) cl = snd (client_authorize pf rnd cfg options cl)"
| "call cfg (HandleCallback pf given) cl = snd (handleCallback pf cfg given cl)"
| "call cfg (RefreshToken pf) cl = snd (client_refreshToken pf cfg cl)"
| "call cfg (GetAccessToken pf) cl = snd (getAccessToken pf cfg cl)"
| "call cfg (Logout pf options) cl = snd (client_logout pf cfg options cl)"
| "call cfg (Subscribe listener) cl = subscribe listener cl"
| "call cfg (Unsubscribe i) cl = unsubscribe i cl"

text \<open>
  The clients that calls can reach from a new client. The HTTP client may answer
  differently from one call to the next.
\<close>

inductive reachable :: "('j, 'u) OAuthClientConfig \<Rightarrow> ('j, 'u) Client \<Rightarrow> bool"
  for cfg :: "('j, 'u) OAuthClientConfig" where
  reachable_new: "reachable cfg (createOAuthClient storage)"
| reachable_call:
    "reachable cfg cl \<Longrightarrow> reachable cfg (call (cfg\<lparr>cfg_httpClient := answers\<rparr>) c cl)"

text \<open>The invariant of the client's state: a decoded JWT is present only in an authenticated state.\<close>

definition jwt_authenticated :: "('j, 'u) Client \<Rightarrow> bool" where
  "jwt_authenticated cl = (jwt (c_state cl) \<noteq> None \<longrightarrow> isAuthenticated (c_state cl))"

text \<open>
  No subscribed listener throws, and neither \<open>onAuthStateChange\<close> nor
  \<open>onTokenRefresh\<close> does.
\<close>

definition callbacks_return :: "('j, 'u) OAuthClientConfig \<Rightarrow> ('j, 'u) Client \<Rightarrow> bool" where
  "callbacks_return cfg cl =
     ((\<forall>l \<in> set (c_listeners cl). \<forall>s. snd l s = CallbackReturns)
      \<and> (\<forall>s. optional_call (cfg_onAuthStateChange cfg) s = CallbackReturns)
      \<and> (\<forall>t. optional_call (cfg_onTokenRefresh cfg) t = CallbackReturns))"


section \<open>Fixtures of the test suite (oauth/token.test.ts, __mocks__/http.ts)\<close>

definition mockProvider :: ProviderConfig where
  "mockProvider =
     \<lparr>issuer = ''https://auth.example.com'',
      clientId = ''test-client-id'',
      redirectUri = ''http://localhost:3000/callback'',
      scopes = [''openid'', ''profile'', ''email''],
      endpoints =
        \<lparr>authorizationEndpoint = ''https://auth.example.com/authorize'',
         tokenEndpoint = ''https://auth.example.com/token'',
         logoutEndpoint = None, userInfoEndpoint = None, revocationEndpoint = None\<rparr>,
      postLogoutRedirectUri = None,
      additionalAuthParams = None\<rparr>"

definition mockTokenResponse :: TokenResponse where
  "mockTokenResponse =
     \<lparr>access_token = ''mock-access-token'',
      token_type = ''Bearer'',
      expires_in = Some 3600,
      refresh_token = Some ''mock-refresh-token'',
      id_token = Some ''mock-id-token'',
      scope = Some ''openid profile email''\<rparr>"

text \<open>The callback URLs of the tests, as \<open>new URL\<close> parses them.\<close>

definition callbackHref :: string where
  "callbackHref = ''http://localhost:3000/callback?code=auth-code-123&state=test-state''"

definition errorHref :: string where
  "errorHref = ''http://localhost:3000/callback?error=access_denied&error_description=User%20denied''"

definition noCodeHref :: string where
  "noCodeHref = ''http://localhost:3000/callback?state=test-state''"

definition emptyErrorHref :: string where
  "emptyErrorHref = ''http://localhost:3000/callback?error=&code=auth-code-123&state=test-state''"

definition mockURL :: "string \<Rightarrow> URL option" where
  "mockURL s =
     (if s = callbackHref then
        Some \<lparr>origin = ''http://localhost:3000'', pathname = ''/callback'',
              searchParams = [(''code'', ''auth-code-123''), (''state'', ''test-state'')]\<rparr>
      else if s = errorHref then
        Some \<lparr>origin = ''http://localhost:3000'', pathname = ''/callback'',
              searchParams = [(''error'', ''access_denied''),
                              (''error_description'', ''User denied'')]\<rparr>
      else if s = noCodeHref then
        Some \<lparr>origin = ''http://localhost:3000'', pathname = ''/callback'',
              searchParams = [(''state'', ''test-state'')]\<rparr>
      else if s = ''https://auth.example.com/authorize'' then
        Some \<lparr>origin = ''https://auth.example.com'', pathname = ''/authorize'',
              searchParams = []\<rparr>
      else if s = emptyErrorHref then
        Some \<lparr>origin = ''http://localhost:3000'', pathname = ''/callback'',
              searchParams = [(''error'', []), (''code'', ''auth-code-123''),
                              (''state'', ''test-state'')]\<rparr>
      else None)"

definition mockPlatform :: Platform where
  "mockPlatform =
     \<lparr>URL_new = mockURL,
      URL_new_base = (\<lambda>s base. if s = ''http://localhost:3000/callback''
                                then mockURL callbackHref else None),
      window = Some \<lparr>href = callbackHref,
                      currentPath = ''/callback?code=auth-code-123&state=test-state'',
                      currentOrigin = ''http://localhost:3000''\<rparr>,
      Date_now = 1700000000000,
      sha256_base64url = (\<lambda>v. ''challenge-of-'' @ v)\<rparr>"

text \<open>\<open>createMockHttpClient\<close> with one response, for the token endpoint.\<close>

definition createMockHttpClient :: "int \<Rightarrow> TokenResponse \<Rightarrow> HttpClient" where
  "createMockHttpClient status data =
     (\<lambda>request. if req_url request = ''https://auth.example.com/token''
                then Resolves status data
                else Rejects ''No mock response'')"

definition rejectingHttpClient :: HttpClient where
  "rejectingHttpClient = (\<lambda>request. Rejects ''Network error'')"

text \<open>The storage of the exchange tests: a stored state and verifier, no tokens.\<close>

definition mockStorage :: StorageConfig where
  "mockStorage =
     \<lparr>tokenStorage = Map.empty,
      flowStorage = [STATE \<mapsto> ''test-state'', CODE_VERIFIER \<mapsto> ''test-verifier'']\<rparr>"

definition differentStateStorage :: StorageConfig where
  "differentStateStorage =
     \<lparr>tokenStorage = Map.empty,
      flowStorage = [STATE \<mapsto> ''different-state'', CODE_VERIFIER \<mapsto> ''test-verifier'']\<rparr>"

definition noVerifierStorage :: StorageConfig where
  "noVerifierStorage =
     \<lparr>tokenStorage = Map.empty, flowStorage = [STATE \<mapsto> ''test-state'']\<rparr>"

text \<open>The storage that a successful exchange of the test's code leaves.\<close>

definition storageAfterExchange :: StorageConfig where
  "storageAfterExchange =
     fst (snd (exchangeCodeForTokens mockPlatform mockProvider mockStorage
                 (createMockHttpClient 200 mockTokenResponse) None))"

text \<open>The storages of the refresh tests: nothing stored, and an expired token with a refresh token.\<close>

definition emptyStorage :: StorageConfig where
  "emptyStorage = \<lparr>tokenStorage = Map.empty, flowStorage = Map.empty\<rparr>"

definition expiredTokens :: TokenState where
  "expiredTokens =
     \<lparr>accessToken = ''old-access'', refreshToken = Some ''refresh-token'', idToken = None,
      expiresAt = Some (Date_now mockPlatform - 1000), grantedScope = None\<rparr>"

definition expiredStorage :: StorageConfig where
  "expiredStorage = storeTokens expiredTokens emptyStorage"

text \<open>
  Fixtures of the authorization tests (oauth/authorize.test.ts): the random draws, options
  with extra parameters, and options whose extra parameters use the keys \<open>state\<close> and
  \<open>code_challenge_method\<close>.
\<close>

definition mockRandomness :: Randomness where
  "mockRandomness = \<lparr>nextCodeVerifier = ''random-verifier'', nextState = ''random-state''\<rparr>"

definition overridingOptions :: AuthorizeOptions where
  "overridingOptions =
     \<lparr>preservePath = False, prompt = None,
      additionalParams = Some [(''state'', ''fixed-state''),
                               (''code_challenge_method'', ''plain'')]\<rparr>"

definition extraOptions :: AuthorizeOptions where
  "extraOptions =
     \<lparr>preservePath = False, prompt = Some PromptLogin,
      additionalParams = Some [(''acr_values'', ''mfa''),
                               (''login_hint'', ''user@example.com'')]\<rparr>"

definition extraUrl :: URL where
  "extraUrl =
     \<lparr>origin = ''https://auth.example.com'', pathname = ''/authorize'',
      searchParams =
        [(''client_id'', ''test-client-id''),
         (''response_type'', ''code''),
         (''scope'', ''openid profile email''),
         (''redirect_uri'', ''http://localhost:3000/callback''),
         (''code_challenge'', ''challenge-of-random-verifier''),
         (''code_challenge_method'', ''S256''),
         (''state'', ''random-state''),
         (''prompt'', ''login''),
         (''acr_values'', ''mfa''),
         (''login_hint'', ''user@example.com'')]\<rparr>"

text \<open>
  Clients of the client tests (oauth/client.test.ts): the token endpoint answers with the
  mock response, or with one that has no ID token; the client has handled the callback.
\<close>

definition mockConfig :: "(string, string) OAuthClientConfig" where
  "mockConfig =
     \<lparr>cfg_provider = mockProvider,
      cfg_httpClient = createMockHttpClient 200 mockTokenResponse,
      cfg_getUser = None,
      cfg_jwtDecode = (\<lambda>token. Some token),
      cfg_onAuthStateChange = None,
      cfg_onTokenRefresh = None,
      cfg_onError = None\<rparr>"

definition noIdTokenConfig :: "(string, string) OAuthClientConfig" where
  "noIdTokenConfig =
     \<lparr>cfg_provider = mockProvider,
      cfg_httpClient = createMockHttpClient 200 (mockTokenResponse\<lparr>id_token := None\<rparr>),
      cfg_getUser = None,
      cfg_jwtDecode = (\<lambda>token. Some token),
      cfg_onAuthStateChange = None,
      cfg_onTokenRefresh = None,
      cfg_onError = None\<rparr>"

definition clientAfterCallback :: "(string, string) OAuthClientConfig \<Rightarrow> (string, string) Client" where
  "clientAfterCallback cfg =
     call cfg (HandleCallback mockPlatform None) (createOAuthClient mockStorage)"






text \<open>Observers of an exchange result.\<close>

fun result_code :: "ExchangeResult \<Rightarrow> AuthErrorCode option" where
  "result_code (Failure e) = Some (code e)"
| "result_code (Success tokens path) = None"

fun result_message :: "ExchangeResult \<Rightarrow> string" where
  "result_message (Failure e) = message e"
| "result_message (Success tokens path) = []"

section \<open>Properties\<close>

subsection \<open>State validation\<close>

lemma xor_int_eq_0_iff: "(a XOR b = 0) = (a = b)" for a b :: int
proof
  assume h: "a XOR b = 0"
  have "(a XOR b) XOR b = a" by (simp only: xor.assoc xor_self_eq xor.right_neutral)
  then show "a = b" using h by simp
next
  assume "a = b" then show "a XOR b = 0" by simp
qed

text \<open>
  The loop invariant: started at position \<open>i\<close> with accumulator \<open>acc\<close>, the loop ends
  with zero exactly when the accumulator was zero and the two strings agree from \<open>i\<close> on.
\<close>

lemma validateState_loop_zero:
  "(validateState_loop r s i acc = 0) =
     (acc = 0 \<and> (\<forall>j. i \<le> j \<and> j < length r \<longrightarrow> r ! j = s ! j))"
proof (induction r s i acc rule: validateState_loop.induct)
  case (1 r s i acc)
  show ?case
  proof (cases "i < length r")
    case True
    have split: "(\<forall>j. i \<le> j \<and> j < length r \<longrightarrow> r ! j = s ! j) =
                 (r ! i = s ! i \<and> (\<forall>j. i + 1 \<le> j \<and> j < length r \<longrightarrow> r ! j = s ! j))"
    proof -
      have "\<And>j. (i \<le> j) = (j = i \<or> i + 1 \<le> j)" by auto
      then show ?thesis using True by auto
    qed
    have "validateState_loop r s i acc =
          validateState_loop r s (i + 1) (acc OR (charCodeAt r i XOR charCodeAt s i))"
      using True by (subst validateState_loop.simps) simp
    then show ?thesis
      using 1 [OF True] split
      by (auto simp add: or_eq_0_iff xor_int_eq_0_iff charCodeAt_def)
  next
    case False
    then show ?thesis by (subst validateState_loop.simps) auto
  qed
qed

lemma validateState_loop_eq:
  "length r = length s \<Longrightarrow> (validateState_loop r s 0 0 = 0) = (r = s)"
  by (auto simp: validateState_loop_zero intro: nth_equalityI)

lemma validateState_iff:
  "validateState a b = (\<exists>s. a = Some s \<and> b = Some s \<and> s \<noteq> [])"
  by (cases a; cases b)
     (auto simp: validateState_def validateState_loop_eq split: if_splits)

text \<open>
  Claim C5. \<open>validateState a b\<close> is false when either argument is null or empty or when
  the lengths differ; otherwise it is true exactly when the two strings are equal, the
  accumulated-XOR loop over all positions being zero exactly on equality. So
  \<open>validateState s s\<close> holds for every non-empty \<open>s\<close>, and \<open>validateState a b\<close> fails
  whenever \<open>a\<close> differs from \<open>b\<close>.
\<close>

theorem validateState_correct:
  "(a = None \<or> a = Some [] \<or> b = None \<or> b = Some [] \<longrightarrow> \<not> validateState a b)
   \<and> (\<forall>r s. length r \<noteq> length s \<longrightarrow> \<not> validateState (Some r) (Some s))
   \<and> (\<forall>r s. r \<noteq> [] \<and> length r = length s \<longrightarrow>
         validateState (Some r) (Some s) = (validateState_loop r s 0 0 = 0)
         \<and> (validateState_loop r s 0 0 = 0) = (r = s))
   \<and> (\<forall>s. s \<noteq> [] \<longrightarrow> validateState (Some s) (Some s))
   \<and> (a \<noteq> b \<longrightarrow> \<not> validateState a b)"
  by (auto simp: validateState_iff validateState_loop_eq)

theorem validateState_correct_witness:
  "\<not> validateState None (Some ''xyz'')
   \<and> \<not> validateState (Some ''ab'') (Some ''abc'')
   \<and> validateState_loop ''abc'' ''abd'' 0 0 \<noteq> 0
   \<and> \<not> validateState (Some ''abc'') (Some ''abd'')
   \<and> validateState_loop ''abc'' ''abc'' 0 0 = 0
   \<and> validateState (Some ''abc'') (Some ''abc'')"
  using validateState_correct [of None "Some ''xyz''"]
        validateState_correct [of "Some ''abc''" "Some ''abd''"]
  by auto

subsection \<open>The branches of the code exchange\<close>


lemma exchange_callback_error:
  "truthy (cb_error (parseCallbackUrl pf given)) = Some e \<Longrightarrow>
   exchangeCodeForTokens pf provider storage httpClient given =
     (Failure (createAuthError callback_error
                 (case cb_errorDescription (parseCallbackUrl pf given) of Some d \<Rightarrow> d | None \<Rightarrow> e)
                 (CallbackDetails e (cb_errorDescription (parseCallbackUrl pf given)))),
      storage, [])"
  by (simp add: exchangeCodeForTokens_def Let_def)

lemma exchange_no_code:
  "truthy (cb_error (parseCallbackUrl pf given)) = None \<Longrightarrow>
   truthy (cb_code (parseCallbackUrl pf given)) = None \<Longrightarrow>
   exchangeCodeForTokens pf provider storage httpClient given =
     (Failure (createAuthError callback_error ''No authorization code in callback URL'' NoDetails),
      storage, [])"
  by (simp add: exchangeCodeForTokens_def Let_def)

lemma exchange_invalid_state:
  "truthy (cb_error (parseCallbackUrl pf given)) = None \<Longrightarrow>
   truthy (cb_code (parseCallbackUrl pf given)) = Some c \<Longrightarrow>
   \<not> validateState (cb_state (parseCallbackUrl pf given)) (storage_get (flowStorage storage) STATE) \<Longrightarrow>
   exchangeCodeForTokens pf provider storage httpClient given =
     (Failure (createAuthError invalid_state
                 ''State parameter mismatch - possible CSRF attack'' NoDetails),
      storage, [])"
  by (simp add: exchangeCodeForTokens_def Let_def)

lemma exchange_no_verifier:
  "truthy (cb_error (parseCallbackUrl pf given)) = None \<Longrightarrow>
   truthy (cb_code (parseCallbackUrl pf given)) = Some c \<Longrightarrow>
   validateState (cb_state (parseCallbackUrl pf given)) (storage_get (flowStorage storage) STATE) \<Longrightarrow>
   truthy (storage_get (flowStorage storage) CODE_VERIFIER) = None \<Longrightarrow>
   exchangeCodeForTokens pf provider storage httpClient given =
     (Failure (createAuthError token_exchange_failed
                 ''Code verifier not found in storage'' NoDetails),
      storage, [])"
  by (simp add: exchangeCodeForTokens_def Let_def)

lemma exchange_replay:
  "truthy (cb_error (parseCallbackUrl pf given)) = None \<Longrightarrow>
   truthy (cb_code (parseCallbackUrl pf given)) = Some c \<Longrightarrow>
   validateState (cb_state (parseCallbackUrl pf given)) (storage_get (flowStorage storage) STATE) \<Longrightarrow>
   truthy (storage_get (flowStorage storage) CODE_VERIFIER) = Some v \<Longrightarrow>
   storage_get (flowStorage storage) PREVIOUS_AUTH_CODE = Some c \<Longrightarrow>
   exchangeCodeForTokens pf provider storage httpClient given =
     (Failure (createAuthError token_exchange_failed
                 ''Authorization code already exchanged'' NoDetails),
      storage, [])"
  by (simp add: exchangeCodeForTokens_def Let_def)

lemma exchange_sends:
  "truthy (cb_error (parseCallbackUrl pf given)) = None \<Longrightarrow>
   truthy (cb_code (parseCallbackUrl pf given)) = Some c \<Longrightarrow>
   validateState (cb_state (parseCallbackUrl pf given)) (storage_get (flowStorage storage) STATE) \<Longrightarrow>
   truthy (storage_get (flowStorage storage) CODE_VERIFIER) = Some v \<Longrightarrow>
   storage_get (flowStorage storage) PREVIOUS_AUTH_CODE \<noteq> Some c \<Longrightarrow>
   request = exchangeRequest provider
               (case storage_get (flowStorage storage) REDIRECT_URI of
                  Some r \<Rightarrow> r | None \<Rightarrow> redirectUri provider) c v \<Longrightarrow>
   storage1 = storage\<lparr>flowStorage := storage_set (flowStorage storage) PREVIOUS_AUTH_CODE c\<rparr> \<Longrightarrow>
   exchangeCodeForTokens pf provider storage httpClient given =
     (case httpClient request of
        Rejects err \<Rightarrow>
          (Failure (createAuthError network_error
                      ''Failed to exchange authorization code'' (Thrown err)),
           storage1, [request])
      | Resolves status data \<Rightarrow>
          if status \<noteq> 200 then
            (Failure (createAuthError token_exchange_failed
                        (''Token exchange failed with status '' @ show_int status)
                        (ResponseData data)),
             storage1, [request])
          else
            (Success (parseTokenResponse pf data)
               (case storage_get (flowStorage storage) PRE_AUTH_PATH of
                  Some p \<Rightarrow> p | None \<Rightarrow> ''/''),
             \<lparr>tokenStorage = storage_set (tokenStorage storage) TOKENS
                               (JSON_stringify (parseTokenResponse pf data)),
              flowStorage =
                (flowStorage storage)(PREVIOUS_AUTH_CODE \<mapsto> c, CODE_VERIFIER := None,
                   STATE := None, REDIRECT_URI := None, PRE_AUTH_PATH := None)\<rparr>,
             [request]))"
  by (simp add: exchangeCodeForTokens_def Let_def storeTokens_def
        storage_set_def storage_remove_def storage_get_def split: HttpOutcome.splits)

subsection \<open>Validation order of the code exchange\<close>


lemma differing_state_invalid: "a \<noteq> b \<Longrightarrow> \<not> validateState a b"
  by (auto simp: validateState_iff)

lemma mock_parse_callback [simp]:
  "parseCallbackUrl mockPlatform None =
     \<lparr>cb_code = Some ''auth-code-123'', cb_state = Some ''test-state'',
      cb_error = None, cb_errorDescription = None\<rparr>"
  by (simp add: parseCallbackUrl_def mockPlatform_def mockURL_def callbackHref_def
        searchParams_get_def)

lemma mock_parse_error [simp]:
  "parseCallbackUrl mockPlatform (Some errorHref) =
     \<lparr>cb_code = None, cb_state = None,
      cb_error = Some ''access_denied'', cb_errorDescription = Some ''User denied''\<rparr>"
  by (simp add: parseCallbackUrl_def mockPlatform_def mockURL_def callbackHref_def
        errorHref_def searchParams_get_def)

lemma mock_parse_noCode [simp]:
  "parseCallbackUrl mockPlatform (Some noCodeHref) =
     \<lparr>cb_code = None, cb_state = Some ''test-state'',
      cb_error = None, cb_errorDescription = None\<rparr>"
  by (simp add: parseCallbackUrl_def mockPlatform_def mockURL_def callbackHref_def
        errorHref_def noCodeHref_def searchParams_get_def)

text \<open>
  The validation order that the code implements, where a parameter or a stored value
  counts as present only when it is a non-empty string, as the guards of the source test
  it: a non-empty error parameter in the callback gives \<open>callback_error\<close>; else a
  missing or empty code gives \<open>callback_error\<close>; else a state that differs from the
  stored state gives \<open>invalid_state\<close>; else a missing or empty stored code verifier
  gives \<open>token_exchange_failed\<close>. In each case the storage is left as it was and no
  request is sent.
\<close>

theorem exchange_validation_order:
  assumes "cb = parseCallbackUrl pf given"
      and "res = exchangeCodeForTokens pf provider storage httpClient given"
  shows "(truthy (cb_error cb) \<noteq> None \<longrightarrow>
            result_code (fst res) = Some callback_error \<and> snd res = (storage, []))
       \<and> (truthy (cb_error cb) = None \<and> truthy (cb_code cb) = None \<longrightarrow>
            result_code (fst res) = Some callback_error \<and> snd res = (storage, []))
       \<and> (truthy (cb_error cb) = None \<and> truthy (cb_code cb) \<noteq> None
            \<and> cb_state cb \<noteq> storage_get (flowStorage storage) STATE \<longrightarrow>
            result_code (fst res) = Some invalid_state \<and> snd res = (storage, []))
       \<and> (truthy (cb_error cb) = None \<and> truthy (cb_code cb) \<noteq> None
            \<and> validateState (cb_state cb) (storage_get (flowStorage storage) STATE)
            \<and> truthy (storage_get (flowStorage storage) CODE_VERIFIER) = None \<longrightarrow>
            result_code (fst res) = Some token_exchange_failed \<and> snd res = (storage, []))"
proof -
  let ?stored = "storage_get (flowStorage storage) STATE"
  have first: "result_code (fst res) = Some callback_error \<and> snd res = (storage, [])"
    if "truthy (cb_error cb) \<noteq> None"
  proof -
    from that obtain e where "truthy (cb_error (parseCallbackUrl pf given)) = Some e"
      using assms(1) by auto
    from exchange_callback_error [OF this] show ?thesis
      using assms(2) by (simp add: createAuthError_def)
  qed
  have second: "result_code (fst res) = Some callback_error \<and> snd res = (storage, [])"
    if "truthy (cb_error cb) = None \<and> truthy (cb_code cb) = None"
    using that assms exchange_no_code [of pf given provider storage httpClient]
    by (simp add: createAuthError_def)
  have third: "result_code (fst res) = Some invalid_state \<and> snd res = (storage, [])"
    if h: "truthy (cb_error cb) = None \<and> truthy (cb_code cb) \<noteq> None \<and> cb_state cb \<noteq> ?stored"
  proof -
    from h obtain c where c: "truthy (cb_code (parseCallbackUrl pf given)) = Some c"
      using assms(1) by auto
    have e: "truthy (cb_error (parseCallbackUrl pf given)) = None"
      using h assms(1) by simp
    have "\<not> validateState (cb_state (parseCallbackUrl pf given)) ?stored"
      using h assms(1) by (simp add: differing_state_invalid)
    from exchange_invalid_state [OF e c this] show ?thesis
      using assms(2) by (simp add: createAuthError_def)
  qed
  have fourth: "result_code (fst res) = Some token_exchange_failed \<and> snd res = (storage, [])"
    if h: "truthy (cb_error cb) = None \<and> truthy (cb_code cb) \<noteq> None
           \<and> validateState (cb_state cb) ?stored
           \<and> truthy (storage_get (flowStorage storage) CODE_VERIFIER) = None"
  proof -
    from h obtain c where c: "truthy (cb_code (parseCallbackUrl pf given)) = Some c"
      using assms(1) by auto
    have e: "truthy (cb_error (parseCallbackUrl pf given)) = None"
      using h assms(1) by simp
    have v: "validateState (cb_state (parseCallbackUrl pf given)) ?stored"
      using h assms(1) by simp
    from exchange_no_verifier [OF e c v] h show ?thesis
      using assms(2) by (simp add: createAuthError_def)
  qed
  from first second third fourth show ?thesis by blast
qed

theorem exchange_validation_order_witness:
  "exchangeCodeForTokens mockPlatform mockProvider mockStorage rejectingHttpClient (Some errorHref)
     = (Failure \<lparr>code = callback_error, message = ''User denied'',
                 details = CallbackDetails ''access_denied'' (Some ''User denied'')\<rparr>,
        mockStorage, [])
   \<and> result_code (fst (exchangeCodeForTokens mockPlatform mockProvider mockStorage
                          rejectingHttpClient (Some noCodeHref))) = Some callback_error
   \<and> result_code (fst (exchangeCodeForTokens mockPlatform mockProvider differentStateStorage
                          rejectingHttpClient None)) = Some invalid_state
   \<and> snd (exchangeCodeForTokens mockPlatform mockProvider differentStateStorage
             rejectingHttpClient None) = (differentStateStorage, [])
   \<and> result_code (fst (exchangeCodeForTokens mockPlatform mockProvider noVerifierStorage
                          rejectingHttpClient None)) = Some token_exchange_failed"
proof -
  have a: "exchangeCodeForTokens mockPlatform mockProvider mockStorage rejectingHttpClient (Some errorHref)
     = (Failure \<lparr>code = callback_error, message = ''User denied'',
                 details = CallbackDetails ''access_denied'' (Some ''User denied'')\<rparr>,
        mockStorage, [])"
    by (simp add: exchangeCodeForTokens_def createAuthError_def)
  note b = exchange_validation_order [OF refl refl, of mockPlatform "Some noCodeHref"
             mockProvider mockStorage rejectingHttpClient]
  note c = exchange_validation_order [OF refl refl, of mockPlatform None
             mockProvider differentStateStorage rejectingHttpClient]
  note d = exchange_validation_order [OF refl refl, of mockPlatform None
             mockProvider noVerifierStorage rejectingHttpClient]
  have v: "validateState (Some ''test-state'') (Some ''test-state'')"
    by (simp add: validateState_iff)
  show ?thesis
    using a b c d v
    by (simp add: differentStateStorage_def noVerifierStorage_def storage_get_def)
qed

lemma mock_parse_emptyError:
  "parseCallbackUrl mockPlatform (Some emptyErrorHref) =
     \<lparr>cb_code = Some ''auth-code-123'', cb_state = Some ''test-state'',
      cb_error = Some [], cb_errorDescription = None\<rparr>"
  by (simp add: parseCallbackUrl_def mockPlatform_def mockURL_def callbackHref_def
        errorHref_def noCodeHref_def emptyErrorHref_def searchParams_get_def)

lemma mock_exchange:
  assumes "truthy (cb_error (parseCallbackUrl mockPlatform given)) = None"
      and "truthy (cb_code (parseCallbackUrl mockPlatform given)) = Some ''auth-code-123''"
      and "cb_state (parseCallbackUrl mockPlatform given) = Some ''test-state''"
  shows "exchangeCodeForTokens mockPlatform mockProvider mockStorage
           (createMockHttpClient 200 data) given
         = (Success (parseTokenResponse mockPlatform data) ''/'',
            \<lparr>tokenStorage = [TOKENS \<mapsto> Json (parseTokenResponse mockPlatform data)],
             flowStorage = [PREVIOUS_AUTH_CODE \<mapsto> ''auth-code-123'']\<rparr>,
            [exchangeRequest mockProvider ''http://localhost:3000/callback'' ''auth-code-123''
               ''test-verifier''])"
proof -
  let ?req = "exchangeRequest mockProvider ''http://localhost:3000/callback''
                ''auth-code-123'' ''test-verifier''"
  have v: "validateState (cb_state (parseCallbackUrl mockPlatform given))
             (storage_get (flowStorage mockStorage) STATE)"
    by (simp add: assms(3) validateState_iff mockStorage_def storage_get_def)
  have verifier: "truthy (storage_get (flowStorage mockStorage) CODE_VERIFIER)
                    = Some ''test-verifier''"
    by (simp add: mockStorage_def storage_get_def)
  have guard: "storage_get (flowStorage mockStorage) PREVIOUS_AUTH_CODE \<noteq> Some ''auth-code-123''"
    by (simp add: mockStorage_def storage_get_def)
  have req: "?req = exchangeRequest mockProvider
               (case storage_get (flowStorage mockStorage) REDIRECT_URI of
                  Some r \<Rightarrow> r | None \<Rightarrow> redirectUri mockProvider) ''auth-code-123'' ''test-verifier''"
    by (simp add: mockStorage_def storage_get_def mockProvider_def)
  have answer: "createMockHttpClient 200 data ?req = Resolves 200 data"
    by (simp add: createMockHttpClient_def exchangeRequest_def mockProvider_def)
  have path: "(case storage_get (flowStorage mockStorage) PRE_AUTH_PATH of
                 Some p \<Rightarrow> p | None \<Rightarrow> ''/'') = ''/''"
    by (simp add: mockStorage_def storage_get_def)
  have tok: "storage_set (tokenStorage mockStorage) TOKENS
               (JSON_stringify (parseTokenResponse mockPlatform data))
             = [TOKENS \<mapsto> Json (parseTokenResponse mockPlatform data)]"
    by (simp add: mockStorage_def storage_set_def JSON_stringify_def)
  have flow: "(flowStorage mockStorage)(PREVIOUS_AUTH_CODE \<mapsto> ''auth-code-123'',
                 CODE_VERIFIER := None, STATE := None, REDIRECT_URI := None,
                 PRE_AUTH_PATH := None)
              = [PREVIOUS_AUTH_CODE \<mapsto> ''auth-code-123'']"
    by (rule ext) (simp add: mockStorage_def)
  have "exchangeCodeForTokens mockPlatform mockProvider mockStorage
          (createMockHttpClient 200 data) given
        = (case createMockHttpClient 200 data ?req of
        Rejects err \<Rightarrow>
          (Failure (createAuthError network_error
                      ''Failed to exchange authorization code'' (Thrown err)),
           mockStorage\<lparr>flowStorage := storage_set (flowStorage mockStorage) PREVIOUS_AUTH_CODE ''auth-code-123''\<rparr>, [?req])
      | Resolves status data \<Rightarrow>
          if status \<noteq> 200 then
            (Failure (createAuthError token_exchange_failed
                        (''Token exchange failed with status '' @ show_int status)
                        (ResponseData data)),
             mockStorage\<lparr>flowStorage := storage_set (flowStorage mockStorage) PREVIOUS_AUTH_CODE ''auth-code-123''\<rparr>, [?req])
          else
            (Success (parseTokenResponse mockPlatform data)
               (case storage_get (flowStorage mockStorage) PRE_AUTH_PATH of
                  Some p \<Rightarrow> p | None \<Rightarrow> ''/''),
             \<lparr>tokenStorage = storage_set (tokenStorage mockStorage) TOKENS
                               (JSON_stringify (parseTokenResponse mockPlatform data)),
              flowStorage =
                (flowStorage mockStorage)(PREVIOUS_AUTH_CODE \<mapsto> ''auth-code-123'', CODE_VERIFIER := None,
                   STATE := None, REDIRECT_URI := None, PRE_AUTH_PATH := None)\<rparr>,
             [?req]))"
    by (rule exchange_sends [OF assms(1) assms(2) v verifier guard req refl])
  then show ?thesis
    by (simp only: answer HttpOutcome.case if_False simp_thms path tok flow)
qed

text \<open>
  Claim C2 says that an error query parameter yields \<open>callback_error\<close> before anything
  else is looked at. The code tests the parameter for truthiness, so an error parameter
  that is present and empty is passed over: at the callback
  \<open>?error=&code=auth-code-123&state=test-state\<close>, with the matching state and a
  verifier in storage, the error parameter is there (and \<open>isCallbackUrl\<close>, which
  tests it against null, takes the URL for a callback on its account), yet the exchange
  goes on, sends the request to the token endpoint and returns the tokens.
\<close>

theorem exchange_empty_error_parameter:
  "cb_error (parseCallbackUrl mockPlatform (Some emptyErrorHref)) = Some []
   \<and> cb_error (parseCallbackUrl mockPlatform (Some emptyErrorHref)) \<noteq> None
   \<and> exchangeCodeForTokens mockPlatform mockProvider mockStorage
        (createMockHttpClient 200 mockTokenResponse) (Some emptyErrorHref)
      = (Success (parseTokenResponse mockPlatform mockTokenResponse) ''/'',
         \<lparr>tokenStorage = [TOKENS \<mapsto> Json (parseTokenResponse mockPlatform mockTokenResponse)],
          flowStorage = [PREVIOUS_AUTH_CODE \<mapsto> ''auth-code-123'']\<rparr>,
         [exchangeRequest mockProvider ''http://localhost:3000/callback'' ''auth-code-123''
            ''test-verifier''])
   \<and> result_code (fst (exchangeCodeForTokens mockPlatform mockProvider mockStorage
                          (createMockHttpClient 200 mockTokenResponse) (Some emptyErrorHref)))
      \<noteq> Some callback_error"
proof -
  have "exchangeCodeForTokens mockPlatform mockProvider mockStorage
        (createMockHttpClient 200 mockTokenResponse) (Some emptyErrorHref)
      = (Success (parseTokenResponse mockPlatform mockTokenResponse) ''/'',
         \<lparr>tokenStorage = [TOKENS \<mapsto> Json (parseTokenResponse mockPlatform mockTokenResponse)],
          flowStorage = [PREVIOUS_AUTH_CODE \<mapsto> ''auth-code-123'']\<rparr>,
         [exchangeRequest mockProvider ''http://localhost:3000/callback'' ''auth-code-123''
            ''test-verifier''])"
    by (rule mock_exchange) (simp_all add: mock_parse_emptyError)
  then show ?thesis by (simp add: mock_parse_emptyError)
qed

subsection \<open>The replay guard after a failed request\<close>


lemma already_exchanged_sublist:
  "sublist ''already exchanged'' ''Authorization code already exchanged''"
proof -
  have "''Authorization code already exchanged'' = ''Authorization code '' @ ''already exchanged'' @ []"
    by simp
  then show ?thesis by (metis sublist_appendI)
qed

text \<open>
  Claim C10. When a call of \<open>exchangeCodeForTokens\<close> passes all five checks and the
  request to the token endpoint then fails (a response other than 200, or a transport
  error), the replay guard already holds the attempted code, while token storage and
  the verifier, state, redirect URI and pre-auth path in flow storage are as before. So
  a retry with the same callback URL fails with \<open>token_exchange_failed\<close>, message
  ``Authorization code already exchanged'', and sends no request, although the code
  was never exchanged.
\<close>

theorem exchange_failed_request_keeps_guard:
  assumes "cb = parseCallbackUrl pf given"
      and "truthy (cb_error cb) = None"
      and "truthy (cb_code cb) = Some c"
      and "validateState (cb_state cb) (storage_get (flowStorage storage) STATE)"
      and "truthy (storage_get (flowStorage storage) CODE_VERIFIER) = Some v"
      and "storage_get (flowStorage storage) PREVIOUS_AUTH_CODE \<noteq> Some c"
      and "request = exchangeRequest provider
                       (case storage_get (flowStorage storage) REDIRECT_URI of
                          Some r \<Rightarrow> r | None \<Rightarrow> redirectUri provider) c v"
      and "(\<exists>err. httpClient request = Rejects err)
           \<or> (\<exists>status data. httpClient request = Resolves status data \<and> status \<noteq> 200)"
      and "exchangeCodeForTokens pf provider storage httpClient given = (res, storage1, sent)"
      and "parseCallbackUrl pf' given = cb"
  shows "(result_code res = Some network_error \<or> result_code res = Some token_exchange_failed)
       \<and> sent = [request]
       \<and> storage_get (flowStorage storage1) PREVIOUS_AUTH_CODE = Some c
       \<and> tokenStorage storage1 = tokenStorage storage
       \<and> storage_get (flowStorage storage1) CODE_VERIFIER
           = storage_get (flowStorage storage) CODE_VERIFIER
       \<and> storage_get (flowStorage storage1) STATE = storage_get (flowStorage storage) STATE
       \<and> storage_get (flowStorage storage1) REDIRECT_URI
           = storage_get (flowStorage storage) REDIRECT_URI
       \<and> storage_get (flowStorage storage1) PRE_AUTH_PATH
           = storage_get (flowStorage storage) PRE_AUTH_PATH
       \<and> exchangeCodeForTokens pf' provider storage1 httpClient' given
           = (Failure (createAuthError token_exchange_failed
                         ''Authorization code already exchanged'' NoDetails),
              storage1, [])
       \<and> sublist ''already exchanged''
            (result_message (fst (exchangeCodeForTokens pf' provider storage1 httpClient' given)))"
proof -
  let ?s1 = "storage\<lparr>flowStorage := storage_set (flowStorage storage) PREVIOUS_AUTH_CODE c\<rparr>"
  note sends = exchange_sends [OF assms(2) [unfolded assms(1)] assms(3) [unfolded assms(1)]
                 assms(4) [unfolded assms(1)] assms(5) assms(6) assms(7) refl,
                 of httpClient]
  have first: "(result_code res = Some network_error \<or> result_code res = Some token_exchange_failed)
               \<and> sent = [request] \<and> storage1 = ?s1"
    using assms(8) assms(9) sends by (auto simp: createAuthError_def)
  then have s1: "storage1 = ?s1" by simp
  have keys: "storage_get (flowStorage storage1) PREVIOUS_AUTH_CODE = Some c"
      "tokenStorage storage1 = tokenStorage storage"
      "storage_get (flowStorage storage1) CODE_VERIFIER = storage_get (flowStorage storage) CODE_VERIFIER"
      "storage_get (flowStorage storage1) STATE = storage_get (flowStorage storage) STATE"
      "storage_get (flowStorage storage1) REDIRECT_URI = storage_get (flowStorage storage) REDIRECT_URI"
      "storage_get (flowStorage storage1) PRE_AUTH_PATH = storage_get (flowStorage storage) PRE_AUTH_PATH"
    by (simp_all add: s1 storage_get_def storage_set_def)
  have retry: "exchangeCodeForTokens pf' provider storage1 httpClient' given
           = (Failure (createAuthError token_exchange_failed
                         ''Authorization code already exchanged'' NoDetails),
              storage1, [])"
    apply (rule exchange_replay [where c = c and v = v])
    using assms keys by simp_all
  show ?thesis
    using first keys retry already_exchanged_sublist
    by (simp add: createAuthError_def)
qed

theorem exchange_failed_request_keeps_guard_witness:
  "exchangeCodeForTokens mockPlatform mockProvider mockStorage rejectingHttpClient None
     = (Failure (createAuthError network_error ''Failed to exchange authorization code''
                   (Thrown ''Network error'')),
        mockStorage\<lparr>flowStorage := (flowStorage mockStorage)(PREVIOUS_AUTH_CODE \<mapsto> ''auth-code-123'')\<rparr>,
        [exchangeRequest mockProvider ''http://localhost:3000/callback'' ''auth-code-123''
           ''test-verifier''])
   \<and> exchangeCodeForTokens mockPlatform mockProvider
        (mockStorage\<lparr>flowStorage := (flowStorage mockStorage)(PREVIOUS_AUTH_CODE \<mapsto> ''auth-code-123'')\<rparr>)
        (createMockHttpClient 200 mockTokenResponse) None
     = (Failure (createAuthError token_exchange_failed
                   ''Authorization code already exchanged'' NoDetails),
        mockStorage\<lparr>flowStorage := (flowStorage mockStorage)(PREVIOUS_AUTH_CODE \<mapsto> ''auth-code-123'')\<rparr>,
        [])"
proof -
  let ?s1 = "mockStorage\<lparr>flowStorage := (flowStorage mockStorage)(PREVIOUS_AUTH_CODE \<mapsto> ''auth-code-123'')\<rparr>"
  let ?req = "exchangeRequest mockProvider ''http://localhost:3000/callback'' ''auth-code-123''
           ''test-verifier''"
  have v: "validateState (Some ''test-state'') (Some ''test-state'')"
    by (simp add: validateState_iff)
  have first: "exchangeCodeForTokens mockPlatform mockProvider mockStorage rejectingHttpClient None
     = (Failure (createAuthError network_error ''Failed to exchange authorization code''
                   (Thrown ''Network error'')), ?s1, [?req])"
    using v
    by (simp add: exchangeCodeForTokens_def mockStorage_def storage_get_def storage_set_def
          rejectingHttpClient_def mockProvider_def)
  have "exchangeCodeForTokens mockPlatform mockProvider ?s1 (createMockHttpClient 200 mockTokenResponse) None
           = (Failure (createAuthError token_exchange_failed
                         ''Authorization code already exchanged'' NoDetails), ?s1, [])"
    using exchange_failed_request_keeps_guard
            [where pf = mockPlatform and given = None and provider = mockProvider
               and storage = mockStorage and httpClient = rejectingHttpClient
               and c = "''auth-code-123''" and v = "''test-verifier''"
               and pf' = mockPlatform
               and httpClient' = "createMockHttpClient 200 mockTokenResponse",
             OF refl _ _ _ _ _ refl _ first refl]
          v
    by (simp add: mockStorage_def storage_get_def rejectingHttpClient_def)
  with first show ?thesis by simp
qed

subsection \<open>The replay guard after a successful exchange\<close>


lemma exchange_success_inv:
  assumes "exchangeCodeForTokens pf provider storage httpClient given
             = (Success tokens path, storage', sent)"
  shows "\<exists>c v data.
           truthy (cb_error (parseCallbackUrl pf given)) = None
         \<and> truthy (cb_code (parseCallbackUrl pf given)) = Some c
         \<and> validateState (cb_state (parseCallbackUrl pf given))
              (storage_get (flowStorage storage) STATE)
         \<and> truthy (storage_get (flowStorage storage) CODE_VERIFIER) = Some v
         \<and> storage_get (flowStorage storage) PREVIOUS_AUTH_CODE \<noteq> Some c
         \<and> tokens = parseTokenResponse pf data
         \<and> storage' =
             \<lparr>tokenStorage = storage_set (tokenStorage storage) TOKENS (JSON_stringify tokens),
              flowStorage =
                (flowStorage storage)(PREVIOUS_AUTH_CODE \<mapsto> c, CODE_VERIFIER := None,
                   STATE := None, REDIRECT_URI := None, PRE_AUTH_PATH := None)\<rparr>"
proof (cases "truthy (cb_error (parseCallbackUrl pf given))")
  case (Some e)
  from exchange_callback_error [OF this] assms have False by simp
    then show ?thesis ..
next
  case noError: None
  show ?thesis
  proof (cases "truthy (cb_code (parseCallbackUrl pf given))")
    case None
    from exchange_no_code [OF noError this] assms have False by simp
    then show ?thesis ..
  next
    case (Some c)
    show ?thesis
    proof (cases "validateState (cb_state (parseCallbackUrl pf given))
                    (storage_get (flowStorage storage) STATE)")
      case False
      from exchange_invalid_state [OF noError Some this] assms have False by simp
    then show ?thesis ..
    next
      case valid: True
      show ?thesis
      proof (cases "truthy (storage_get (flowStorage storage) CODE_VERIFIER)")
        case None
        from exchange_no_verifier [OF noError Some valid this] assms have False by simp
    then show ?thesis ..
      next
        case verifier: (Some v)
        show ?thesis
        proof (cases "storage_get (flowStorage storage) PREVIOUS_AUTH_CODE = Some c")
          case True
          from exchange_replay [OF noError Some valid verifier this] assms have False by simp
    then show ?thesis ..
        next
          case False
          let ?req = "exchangeRequest provider
                        (case storage_get (flowStorage storage) REDIRECT_URI of
                           Some r \<Rightarrow> r | None \<Rightarrow> redirectUri provider) c v"
          note sends = exchange_sends [OF noError Some valid verifier False refl refl,
                         where httpClient = httpClient and provider = provider]
          show ?thesis
          proof (cases "httpClient ?req")
            case (Rejects err)
            with sends assms have False by simp
            then show ?thesis ..
          next
            case (Resolves status data)
            show ?thesis
            proof (cases "status = 200")
              case False
              with Resolves sends assms have False by simp
              then show ?thesis ..
            next
              case True
              with Resolves sends assms
              have "tokens = parseTokenResponse pf data"
                   "storage' =
                      \<lparr>tokenStorage = storage_set (tokenStorage storage) TOKENS
                                        (JSON_stringify (parseTokenResponse pf data)),
                       flowStorage =
                         (flowStorage storage)(PREVIOUS_AUTH_CODE \<mapsto> c, CODE_VERIFIER := None,
                            STATE := None, REDIRECT_URI := None, PRE_AUTH_PATH := None)\<rparr>"
                by simp_all
              with noError Some valid verifier \<open>storage_get (flowStorage storage) PREVIOUS_AUTH_CODE \<noteq> Some c\<close>
              show ?thesis by blast
            qed
          qed
        qed
      qed
    qed
  qed
qed

lemma guard_blocks:
  assumes "truthy (cb_code (parseCallbackUrl pf given)) = Some c"
      and "storage_get (flowStorage storage) PREVIOUS_AUTH_CODE = Some c"
  shows "\<exists>e. exchangeCodeForTokens pf provider storage httpClient given = (Failure e, storage, [])"
proof (cases "truthy (cb_error (parseCallbackUrl pf given))")
  case (Some e)
  from exchange_callback_error [OF this] show ?thesis by (rule exI)
next
  case noError: None
  show ?thesis
  proof (cases "validateState (cb_state (parseCallbackUrl pf given))
                  (storage_get (flowStorage storage) STATE)")
    case False
    from exchange_invalid_state [OF noError assms(1) this] show ?thesis by (rule exI)
  next
    case valid: True
    show ?thesis
    proof (cases "truthy (storage_get (flowStorage storage) CODE_VERIFIER)")
      case None
      from exchange_no_verifier [OF noError assms(1) valid this] show ?thesis by (rule exI)
    next
      case (Some v)
      from exchange_replay [OF noError assms(1) valid Some assms(2)] show ?thesis by (rule exI)
    qed
  qed
qed

text \<open>
  Claim C1, as amended. After a first call of \<open>exchangeCodeForTokens\<close> with code
  \<open>c\<close> has succeeded, the tokens are stored and the replay guard holds \<open>c\<close>. A
  second call with the same callback on the storage the first call left fails with
  \<open>invalid_state\<close> (the stored state was removed), changes nothing and sends no
  request. While the guard holds \<open>c\<close>, every call with that callback fails, changes
  nothing and sends no request; it fails with \<open>token_exchange_failed\<close>, message
  ``Authorization code already exchanged'', when flow storage again holds a state that
  matches the callback's and a code verifier, and the error has that message in no other
  case.
\<close>

theorem exchange_again_after_success:
  assumes "exchangeCodeForTokens pf provider storage httpClient given
             = (Success tokens path, storage', sent)"
      and "parseCallbackUrl pf' given = parseCallbackUrl pf given"
  shows "\<exists>c. truthy (cb_code (parseCallbackUrl pf given)) = Some c
       \<and> getStoredTokens storage' = Some tokens
       \<and> storage_get (flowStorage storage') PREVIOUS_AUTH_CODE = Some c
       \<and> exchangeCodeForTokens pf' provider' storage' httpClient' given
           = (Failure (createAuthError invalid_state
                         ''State parameter mismatch - possible CSRF attack'' NoDetails),
              storage', [])
       \<and> (\<forall>later. storage_get (flowStorage later) PREVIOUS_AUTH_CODE = Some c \<longrightarrow>
             (\<exists>e. exchangeCodeForTokens pf' provider' later httpClient' given
                     = (Failure e, later, [])))
       \<and> (\<forall>later. storage_get (flowStorage later) PREVIOUS_AUTH_CODE = Some c
                   \<and> validateState (cb_state (parseCallbackUrl pf given))
                        (storage_get (flowStorage later) STATE)
                   \<and> truthy (storage_get (flowStorage later) CODE_VERIFIER) \<noteq> None \<longrightarrow>
             exchangeCodeForTokens pf' provider' later httpClient' given
               = (Failure (createAuthError token_exchange_failed
                             ''Authorization code already exchanged'' NoDetails),
                  later, []))
       \<and> (\<forall>later. storage_get (flowStorage later) PREVIOUS_AUTH_CODE = Some c \<longrightarrow>
             (result_message (fst (exchangeCodeForTokens pf' provider' later httpClient' given))
                = ''Authorization code already exchanged'')
             = (validateState (cb_state (parseCallbackUrl pf given))
                  (storage_get (flowStorage later) STATE)
                \<and> truthy (storage_get (flowStorage later) CODE_VERIFIER) \<noteq> None))"
proof -
  from exchange_success_inv [OF assms(1)] obtain c v data where
    inv: "truthy (cb_error (parseCallbackUrl pf given)) = None"
         "truthy (cb_code (parseCallbackUrl pf given)) = Some c"
         "storage' =
             \<lparr>tokenStorage = storage_set (tokenStorage storage) TOKENS (JSON_stringify tokens),
              flowStorage =
                (flowStorage storage)(PREVIOUS_AUTH_CODE \<mapsto> c, CODE_VERIFIER := None,
                   STATE := None, REDIRECT_URI := None, PRE_AUTH_PATH := None)\<rparr>"
    by blast
  have stored: "getStoredTokens storage' = Some tokens"
    by (simp add: inv(3) getStoredTokens_def storage_get_def storage_set_def JSON_stringify_def)
  have guard: "storage_get (flowStorage storage') PREVIOUS_AUTH_CODE = Some c"
    by (simp add: inv(3) storage_get_def)
  have "storage_get (flowStorage storage') STATE = None"
    by (simp add: inv(3) storage_get_def)
  then have "\<not> validateState (cb_state (parseCallbackUrl pf' given))
                  (storage_get (flowStorage storage') STATE)"
    by (simp add: validateState_iff)
  from exchange_invalid_state [OF _ _ this, of c provider' httpClient'] inv assms(2)
  have again: "exchangeCodeForTokens pf' provider' storage' httpClient' given
           = (Failure (createAuthError invalid_state
                         ''State parameter mismatch - possible CSRF attack'' NoDetails),
              storage', [])"
    by simp
  have blocked: "\<exists>e. exchangeCodeForTokens pf' provider' later httpClient' given
                     = (Failure e, later, [])"
    if "storage_get (flowStorage later) PREVIOUS_AUTH_CODE = Some c" for later
    using guard_blocks [of pf' given c later provider' httpClient'] that inv(2) assms(2)
    by simp
  have replay: "exchangeCodeForTokens pf' provider' later httpClient' given
               = (Failure (createAuthError token_exchange_failed
                             ''Authorization code already exchanged'' NoDetails),
                  later, [])"
    if h: "storage_get (flowStorage later) PREVIOUS_AUTH_CODE = Some c
           \<and> validateState (cb_state (parseCallbackUrl pf given))
                (storage_get (flowStorage later) STATE)
           \<and> truthy (storage_get (flowStorage later) CODE_VERIFIER) \<noteq> None" for later
  proof -
    from h obtain w where w: "truthy (storage_get (flowStorage later) CODE_VERIFIER) = Some w"
      by auto
    show ?thesis
      apply (rule exchange_replay [where c = c and v = w])
      using h w inv assms(2) by simp_all
  qed
  have exactly: "(result_message (fst (exchangeCodeForTokens pf' provider' later httpClient' given))
                = ''Authorization code already exchanged'')
             = (validateState (cb_state (parseCallbackUrl pf given))
                  (storage_get (flowStorage later) STATE)
                \<and> truthy (storage_get (flowStorage later) CODE_VERIFIER) \<noteq> None)"
    if g: "storage_get (flowStorage later) PREVIOUS_AUTH_CODE = Some c" for later
  proof (cases "validateState (cb_state (parseCallbackUrl pf given))
                  (storage_get (flowStorage later) STATE)")
    case False
    then have "\<not> validateState (cb_state (parseCallbackUrl pf' given))
                  (storage_get (flowStorage later) STATE)"
      using assms(2) by simp
    from exchange_invalid_state [OF _ _ this, of c provider' httpClient'] inv assms(2)
    have "exchangeCodeForTokens pf' provider' later httpClient' given
           = (Failure (createAuthError invalid_state
                         ''State parameter mismatch - possible CSRF attack'' NoDetails),
              later, [])"
      by simp
    with False show ?thesis by (simp add: createAuthError_def)
  next
    case valid: True
    then have valid': "validateState (cb_state (parseCallbackUrl pf' given))
                  (storage_get (flowStorage later) STATE)"
      using assms(2) by simp
    show ?thesis
    proof (cases "truthy (storage_get (flowStorage later) CODE_VERIFIER)")
      case None
      from exchange_no_verifier [OF _ _ valid' None, of c provider' httpClient'] inv assms(2)
      have "exchangeCodeForTokens pf' provider' later httpClient' given
           = (Failure (createAuthError token_exchange_failed
                         ''Code verifier not found in storage'' NoDetails),
              later, [])"
        by simp
      with None show ?thesis by (simp add: createAuthError_def)
    next
      case (Some w)
      with valid g have "exchangeCodeForTokens pf' provider' later httpClient' given
               = (Failure (createAuthError token_exchange_failed
                             ''Authorization code already exchanged'' NoDetails),
                  later, [])"
        using replay [of later] by simp
      with valid Some show ?thesis by (simp add: createAuthError_def)
    qed
  qed
  have c5: "\<forall>later. storage_get (flowStorage later) PREVIOUS_AUTH_CODE = Some c \<longrightarrow>
             (\<exists>e. exchangeCodeForTokens pf' provider' later httpClient' given
                     = (Failure e, later, []))"
    using blocked by blast
  have c6: "\<forall>later. storage_get (flowStorage later) PREVIOUS_AUTH_CODE = Some c
                   \<and> validateState (cb_state (parseCallbackUrl pf given))
                        (storage_get (flowStorage later) STATE)
                   \<and> truthy (storage_get (flowStorage later) CODE_VERIFIER) \<noteq> None \<longrightarrow>
             exchangeCodeForTokens pf' provider' later httpClient' given
               = (Failure (createAuthError token_exchange_failed
                             ''Authorization code already exchanged'' NoDetails),
                  later, [])"
    using replay by blast
  have c7: "\<forall>later. storage_get (flowStorage later) PREVIOUS_AUTH_CODE = Some c \<longrightarrow>
             (result_message (fst (exchangeCodeForTokens pf' provider' later httpClient' given))
                = ''Authorization code already exchanged'')
             = (validateState (cb_state (parseCallbackUrl pf given))
                  (storage_get (flowStorage later) STATE)
                \<and> truthy (storage_get (flowStorage later) CODE_VERIFIER) \<noteq> None)"
    using exactly by blast
  show ?thesis
    by (rule exI [of _ c]) (intro conjI; (rule inv(2) stored guard again c5 c6 c7))
qed

lemma mock_first_exchange:
  "exchangeCodeForTokens mockPlatform mockProvider mockStorage
     (createMockHttpClient 200 data) None
   = (Success (parseTokenResponse mockPlatform data) ''/'',
      \<lparr>tokenStorage = [TOKENS \<mapsto> Json (parseTokenResponse mockPlatform data)],
       flowStorage = [PREVIOUS_AUTH_CODE \<mapsto> ''auth-code-123'']\<rparr>,
      [exchangeRequest mockProvider ''http://localhost:3000/callback'' ''auth-code-123''
         ''test-verifier''])"
  by (rule mock_exchange) simp_all

text \<open>
  Claim C1 as stated fails: in the replay test's setting, the first exchange of
  \<open>auth-code-123\<close> succeeds and stores the tokens, and the second call with the same
  callback ends in \<open>invalid_state\<close>, not in \<open>token_exchange_failed\<close>.
\<close>

theorem second_exchange_counterexample:
  "fst (exchangeCodeForTokens mockPlatform mockProvider mockStorage
          (createMockHttpClient 200 mockTokenResponse) None)
     = Success (parseTokenResponse mockPlatform mockTokenResponse) ''/''
   \<and> getStoredTokens storageAfterExchange = Some (parseTokenResponse mockPlatform mockTokenResponse)
   \<and> exchangeCodeForTokens mockPlatform mockProvider storageAfterExchange
          (createMockHttpClient 200 mockTokenResponse) None
     = (Failure \<lparr>code = invalid_state,
                 message = ''State parameter mismatch - possible CSRF attack'',
                 details = NoDetails\<rparr>,
        storageAfterExchange, [])
   \<and> result_code (fst (exchangeCodeForTokens mockPlatform mockProvider storageAfterExchange
          (createMockHttpClient 200 mockTokenResponse) None)) \<noteq> Some token_exchange_failed"
proof -
  have after: "storageAfterExchange =
      \<lparr>tokenStorage = [TOKENS \<mapsto> Json (parseTokenResponse mockPlatform mockTokenResponse)],
       flowStorage = [PREVIOUS_AUTH_CODE \<mapsto> ''auth-code-123'']\<rparr>"
    by (simp add: storageAfterExchange_def mock_first_exchange)
  have "\<not> validateState (Some ''test-state'') None" by (simp add: validateState_iff)
  then have second: "exchangeCodeForTokens mockPlatform mockProvider storageAfterExchange
          (createMockHttpClient 200 mockTokenResponse) None
     = (Failure \<lparr>code = invalid_state,
                 message = ''State parameter mismatch - possible CSRF attack'',
                 details = NoDetails\<rparr>,
        storageAfterExchange, [])"
    by (simp add: exchangeCodeForTokens_def after storage_get_def createAuthError_def)
  show ?thesis
    by (simp add: second mock_first_exchange) (simp add: after getStoredTokens_def storage_get_def)
qed

theorem exchange_again_after_success_witness:
  "exchangeCodeForTokens mockPlatform mockProvider storageAfterExchange rejectingHttpClient None
     = (Failure (createAuthError invalid_state
                   ''State parameter mismatch - possible CSRF attack'' NoDetails),
        storageAfterExchange, [])"
  using exchange_again_after_success [OF mock_first_exchange [of mockTokenResponse] refl,
          of mockProvider rejectingHttpClient]
  by (simp add: storageAfterExchange_def mock_first_exchange)


subsection \<open>Parsing a token response\<close>

lemma parseTokenResponse_expiresAt:
  "expiresAt (parseTokenResponse pf response) =
     (case expires_in response of
        None \<Rightarrow> None
      | Some n \<Rightarrow> if n = 0 then None else Some (Date_now pf + n * 1000))"
  by (simp add: parseTokenResponse_def split: option.splits)

text \<open>
  Claim C9 says that \<open>expiresAt\<close> is the current time plus \<open>expires_in\<close> times 1000
  whenever the server provided \<open>expires_in\<close>, also when it is 0, and is null only when
  the server did not provide it. The code tests \<open>expires_in\<close> for truthiness: at a
  response with \<open>expires_in = 0\<close>, which the server did provide, \<open>expiresAt\<close> is null and
  not the current time.
\<close>

theorem parseTokenResponse_expires_in_zero:
  "expires_in (response\<lparr>expires_in := Some 0\<rparr>) \<noteq> None
   \<and> expiresAt (parseTokenResponse pf (response\<lparr>expires_in := Some 0\<rparr>)) = None
   \<and> expiresAt (parseTokenResponse pf (response\<lparr>expires_in := Some 0\<rparr>))
        \<noteq> Some (Date_now pf + 0 * 1000)"
  by (simp add: parseTokenResponse_expiresAt)

subsection \<open>Refreshing the access token\<close>

lemma getStoredTokens_storeTokens:
  "getStoredTokens (storeTokens tokens storage) = Some tokens"
  by (simp add: getStoredTokens_def storeTokens_def storage_get_def storage_set_def
        JSON_stringify_def)

lemma storeTokens_flowStorage:
  "flowStorage (storeTokens tokens storage) = flowStorage storage"
  by (simp add: storeTokens_def)

text \<open>
  Claim C6. \<open>refreshAccessToken\<close> always returns: null with the storage untouched, or
  the new token state with exactly that state stored. It returns null without sending a
  request when no tokens are stored or the stored tokens carry no refresh token; null
  when the request is rejected or the response is not 200; and on a 200 response the
  parsed token state, which it has stored in place of the previous one, with the access
  token, refresh token, ID token, expiry and scope all taken from the response.
\<close>

theorem refreshAccessToken_results:
  "((\<exists>sent. refreshAccessToken pf provider storage httpClient = (None, storage, sent))
    \<or> (\<exists>tokens sent. refreshAccessToken pf provider storage httpClient
                         = (Some tokens, storeTokens tokens storage, sent)))
   \<and> (getStoredTokens storage = None \<longrightarrow>
      refreshAccessToken pf provider storage httpClient = (None, storage, []))
   \<and> (\<forall>t. getStoredTokens storage = Some t \<and> truthy (refreshToken t) = None \<longrightarrow>
      refreshAccessToken pf provider storage httpClient = (None, storage, []))
   \<and> (\<forall>t rt. getStoredTokens storage = Some t \<and> truthy (refreshToken t) = Some rt \<longrightarrow>
        (\<forall>err. httpClient (refreshRequest provider rt) = Rejects err \<longrightarrow>
           refreshAccessToken pf provider storage httpClient
             = (None, storage, [refreshRequest provider rt]))
      \<and> (\<forall>status data. httpClient (refreshRequest provider rt) = Resolves status data
                        \<and> status \<noteq> 200 \<longrightarrow>
           refreshAccessToken pf provider storage httpClient
             = (None, storage, [refreshRequest provider rt]))
      \<and> (\<forall>data. httpClient (refreshRequest provider rt) = Resolves 200 data \<longrightarrow>
           refreshAccessToken pf provider storage httpClient
             = (Some (parseTokenResponse pf data),
                storeTokens (parseTokenResponse pf data) storage,
                [refreshRequest provider rt])
           \<and> getStoredTokens (storeTokens (parseTokenResponse pf data) storage)
               = Some (parseTokenResponse pf data)
           \<and> parseTokenResponse pf data
               = \<lparr>accessToken = access_token data,
                  refreshToken = refresh_token data,
                  idToken = id_token data,
                  expiresAt = expiresAt (parseTokenResponse pf data),
                  grantedScope = scope data\<rparr>))"
proof -
  have total: "(\<exists>sent. refreshAccessToken pf provider storage httpClient = (None, storage, sent))
    \<or> (\<exists>tokens sent. refreshAccessToken pf provider storage httpClient
                         = (Some tokens, storeTokens tokens storage, sent))"
    by (simp add: refreshAccessToken_def Let_def split: option.splits HttpOutcome.splits)
  have cases: "(getStoredTokens storage = None \<longrightarrow>
      refreshAccessToken pf provider storage httpClient = (None, storage, []))
   \<and> (\<forall>t. getStoredTokens storage = Some t \<and> truthy (refreshToken t) = None \<longrightarrow>
      refreshAccessToken pf provider storage httpClient = (None, storage, []))
   \<and> (\<forall>t rt. getStoredTokens storage = Some t \<and> truthy (refreshToken t) = Some rt \<longrightarrow>
        (\<forall>err. httpClient (refreshRequest provider rt) = Rejects err \<longrightarrow>
           refreshAccessToken pf provider storage httpClient
             = (None, storage, [refreshRequest provider rt]))
      \<and> (\<forall>status data. httpClient (refreshRequest provider rt) = Resolves status data
                        \<and> status \<noteq> 200 \<longrightarrow>
           refreshAccessToken pf provider storage httpClient
             = (None, storage, [refreshRequest provider rt]))
      \<and> (\<forall>data. httpClient (refreshRequest provider rt) = Resolves 200 data \<longrightarrow>
           refreshAccessToken pf provider storage httpClient
             = (Some (parseTokenResponse pf data),
                storeTokens (parseTokenResponse pf data) storage,
                [refreshRequest provider rt])
           \<and> getStoredTokens (storeTokens (parseTokenResponse pf data) storage)
               = Some (parseTokenResponse pf data)
           \<and> parseTokenResponse pf data
               = \<lparr>accessToken = access_token data,
                  refreshToken = refresh_token data,
                  idToken = id_token data,
                  expiresAt = expiresAt (parseTokenResponse pf data),
                  grantedScope = scope data\<rparr>))"
    by (simp add: refreshAccessToken_def Let_def getStoredTokens_storeTokens)
       (simp add: parseTokenResponse_def)
  from total cases show ?thesis by (rule conjI)
qed

theorem refreshAccessToken_results_witness:
  "refreshAccessToken mockPlatform mockProvider emptyStorage rejectingHttpClient
     = (None, emptyStorage, [])
   \<and> refreshAccessToken mockPlatform mockProvider expiredStorage rejectingHttpClient
     = (None, expiredStorage, [refreshRequest mockProvider ''refresh-token''])
   \<and> refreshAccessToken mockPlatform mockProvider expiredStorage
        (createMockHttpClient 400 mockTokenResponse)
     = (None, expiredStorage, [refreshRequest mockProvider ''refresh-token''])
   \<and> fst (refreshAccessToken mockPlatform mockProvider expiredStorage
             (createMockHttpClient 200 mockTokenResponse))
     = Some (parseTokenResponse mockPlatform mockTokenResponse)
   \<and> getStoredTokens (fst (snd (refreshAccessToken mockPlatform mockProvider expiredStorage
             (createMockHttpClient 200 mockTokenResponse))))
     = Some \<lparr>accessToken = ''mock-access-token'',
             refreshToken = Some ''mock-refresh-token'',
             idToken = Some ''mock-id-token'',
             expiresAt = Some (1700000000000 + 3600 * 1000),
             grantedScope = Some ''openid profile email''\<rparr>"
proof -
  have none: "getStoredTokens emptyStorage = None"
    by (simp add: getStoredTokens_def emptyStorage_def storage_get_def)
  have some: "getStoredTokens expiredStorage = Some expiredTokens"
    by (simp add: expiredStorage_def getStoredTokens_storeTokens)
  have rt: "truthy (refreshToken expiredTokens) = Some ''refresh-token''"
    by (simp add: expiredTokens_def)
  have url: "req_url (refreshRequest mockProvider ''refresh-token'') = ''https://auth.example.com/token''"
    by (simp add: refreshRequest_def mockProvider_def)
  have parsed: "parseTokenResponse mockPlatform mockTokenResponse =
           \<lparr>accessToken = ''mock-access-token'',
             refreshToken = Some ''mock-refresh-token'',
             idToken = Some ''mock-id-token'',
             expiresAt = Some (1700000000000 + 3600 * 1000),
             grantedScope = Some ''openid profile email''\<rparr>"
    by (simp add: parseTokenResponse_def mockTokenResponse_def mockPlatform_def)
  note a = refreshAccessToken_results [of mockPlatform mockProvider emptyStorage rejectingHttpClient]
  note b = refreshAccessToken_results [of mockPlatform mockProvider expiredStorage rejectingHttpClient]
  note c = refreshAccessToken_results [of mockPlatform mockProvider expiredStorage
             "createMockHttpClient 400 mockTokenResponse"]
  note d = refreshAccessToken_results [of mockPlatform mockProvider expiredStorage
             "createMockHttpClient 200 mockTokenResponse"]
  have 1: "refreshAccessToken mockPlatform mockProvider emptyStorage rejectingHttpClient
     = (None, emptyStorage, [])"
    using a none by blast
  have 2: "refreshAccessToken mockPlatform mockProvider expiredStorage rejectingHttpClient
     = (None, expiredStorage, [refreshRequest mockProvider ''refresh-token''])"
    using b some rt by (simp add: rejectingHttpClient_def)
  have 3: "refreshAccessToken mockPlatform mockProvider expiredStorage
        (createMockHttpClient 400 mockTokenResponse)
     = (None, expiredStorage, [refreshRequest mockProvider ''refresh-token''])"
    using c some rt url by (simp add: createMockHttpClient_def)
  have 4: "refreshAccessToken mockPlatform mockProvider expiredStorage
             (createMockHttpClient 200 mockTokenResponse)
             = (Some (parseTokenResponse mockPlatform mockTokenResponse),
                storeTokens (parseTokenResponse mockPlatform mockTokenResponse) expiredStorage,
                [refreshRequest mockProvider ''refresh-token''])"
    using d some rt url by (simp add: createMockHttpClient_def)
  show ?thesis
    using 1 2 3 4 by (simp add: getStoredTokens_storeTokens) (simp add: parsed)
qed

subsection \<open>The authorization URL\<close>

lemma map_of_obj_put: "map_of (obj_put ps k v) = (map_of ps)(k \<mapsto> v)"
  by (induction ps) (auto simp: fun_upd_twist)

lemma keys_obj_put: "fst ` set (obj_put ps k v) = insert k (fst ` set ps)"
proof -
  have "dom (map_of (obj_put ps k v)) = insert k (dom (map_of ps))"
    by (simp add: map_of_obj_put)
  then show ?thesis by (simp add: dom_map_of_conv_image_fst)
qed

lemma distinct_obj_put: "distinct (map fst ps) \<Longrightarrow> distinct (map fst (obj_put ps k v))"
proof (induction ps)
  case Nil
  then show ?case by simp
next
  case (Cons p ps)
  obtain k' v' where p: "p = (k', v')" by (cases p)
  show ?case
  proof (cases "k' = k")
    case True
    with Cons.prems p show ?thesis by simp
  next
    case False
    have "k' \<notin> fst ` set (obj_put ps k v)"
      using Cons.prems p False by (simp add: keys_obj_put)
    with Cons p False show ?thesis by simp
  qed
qed

lemma spread_fold_props:
  "distinct (map fst obj) \<Longrightarrow>
   distinct (map fst (fold (\<lambda>(k, v) acc. obj_put acc k (Some v)) src obj))
   \<and> (k \<notin> fst ` set src \<longrightarrow>
        map_of (fold (\<lambda>(k, v) acc. obj_put acc k (Some v)) src obj) k = map_of obj k)"
proof (induction src arbitrary: obj)
  case Nil
  then show ?case by simp
next
  case (Cons e src)
  obtain a b where e: "e = (a, b)" by (cases e)
  have d: "distinct (map fst (obj_put obj a (Some b)))"
    using Cons.prems by (rule distinct_obj_put)
  from Cons.IH [OF d] e show ?case
    by (auto simp: map_of_obj_put)
qed

lemma spread_distinct:
  "distinct (map fst obj) \<Longrightarrow> distinct (map fst (spread obj src))"
  by (cases src) (simp_all add: spread_fold_props)

lemma spread_other_key:
  "distinct (map fst obj) \<Longrightarrow> k \<notin> set (Object_keys src) \<Longrightarrow>
   map_of (spread obj src) k = map_of obj k"
  by (cases src) (simp_all add: spread_fold_props)

lemma map_of_filter_other:
  "k' \<noteq> k \<Longrightarrow> map_of (filter (\<lambda>e. fst e \<noteq> k) ps) k' = map_of ps k'"
  by (induction ps) auto

lemma searchParams_get_set:
  "searchParams_get (searchParams_set ps k v) k' =
     (if k' = k then Some v else searchParams_get ps k')"
  by (induction ps) (auto simp: searchParams_get_def map_of_filter_other)

lemma fold_set_other_key:
  "k \<notin> fst ` set params \<Longrightarrow>
   searchParams_get (fold (\<lambda>(k, v) ps. case v of Some x \<Rightarrow> searchParams_set ps k x | None \<Rightarrow> ps) params ps) k = searchParams_get ps k"
proof (induction params arbitrary: ps)
  case Nil
  then show ?case by simp
next
  case (Cons e params)
  obtain a b where e: "e = (a, b)" by (cases e)
  with Cons show ?case
    by (cases b) (auto simp: searchParams_get_set)
qed

lemma fold_set_key:
  "distinct (map fst params) \<Longrightarrow> map_of params k = Some (Some v) \<Longrightarrow>
   searchParams_get (fold (\<lambda>(k, v) ps. case v of Some x \<Rightarrow> searchParams_set ps k x | None \<Rightarrow> ps) params ps) k = Some v"
proof (induction params arbitrary: ps)
  case Nil
  then show ?case by simp
next
  case (Cons e params)
  obtain a b where e: "e = (a, b)" by (cases e)
  show ?case
  proof (cases "a = k")
    case True
    with Cons.prems e have b: "b = Some v" and "k \<notin> fst ` set params" by auto
    with e True show ?thesis
      by (simp add: fold_set_other_key searchParams_get_set)
  next
    case False
    with Cons e show ?thesis by simp
  qed
qed

lemma buildUrl_param:
  "buildUrl pf baseUrl params = Some u \<Longrightarrow> distinct (map fst params) \<Longrightarrow>
   map_of params k = Some (Some v) \<Longrightarrow> searchParams_get (searchParams u) k = Some v"
  by (auto simp: buildUrl_def fold_set_key split: option.splits)

lemma authorization_params:
  assumes "params =
            spread
              (spread
                 [(''client_id'', Some a),
                  (''response_type'', Some ''code''),
                  (''scope'', Some b),
                  (''redirect_uri'', Some c),
                  (''code_challenge'', Some d),
                  (''code_challenge_method'', Some PKCE_CHALLENGE_METHOD),
                  (''state'', Some st),
                  (''prompt'', p)]
                 providerExtra)
              callExtra"
  shows "distinct (map fst params)"
    and "''response_type'' \<notin> set (Object_keys providerExtra) \<Longrightarrow>
         ''response_type'' \<notin> set (Object_keys callExtra) \<Longrightarrow>
         map_of params ''response_type'' = Some (Some ''code'')"
    and "''code_challenge_method'' \<notin> set (Object_keys providerExtra) \<Longrightarrow>
         ''code_challenge_method'' \<notin> set (Object_keys callExtra) \<Longrightarrow>
         map_of params ''code_challenge_method'' = Some (Some ''S256'')"
    and "''state'' \<notin> set (Object_keys providerExtra) \<Longrightarrow>
         ''state'' \<notin> set (Object_keys callExtra) \<Longrightarrow>
         map_of params ''state'' = Some (Some st)"
proof -
  let ?base = "[(''client_id'', Some a),
                  (''response_type'', Some ''code''),
                  (''scope'', Some b),
                  (''redirect_uri'', Some c),
                  (''code_challenge'', Some d),
                  (''code_challenge_method'', Some PKCE_CHALLENGE_METHOD),
                  (''state'', Some st),
                  (''prompt'', p)]"
  have base: "distinct (map fst ?base)" by simp
  then have mid: "distinct (map fst (spread ?base providerExtra))" by (rule spread_distinct)
  then show "distinct (map fst params)" unfolding assms by (rule spread_distinct)
  have key: "map_of params k = map_of ?base k"
    if "k \<notin> set (Object_keys providerExtra)" "k \<notin> set (Object_keys callExtra)" for k
    unfolding assms
    using spread_other_key [OF mid that(2)] spread_other_key [OF base that(1)] by simp
  show "''response_type'' \<notin> set (Object_keys providerExtra) \<Longrightarrow>
         ''response_type'' \<notin> set (Object_keys callExtra) \<Longrightarrow>
         map_of params ''response_type'' = Some (Some ''code'')"
    by (simp add: key)
  show "''code_challenge_method'' \<notin> set (Object_keys providerExtra) \<Longrightarrow>
         ''code_challenge_method'' \<notin> set (Object_keys callExtra) \<Longrightarrow>
         map_of params ''code_challenge_method'' = Some (Some ''S256'')"
    by (simp add: key PKCE_CHALLENGE_METHOD_def)
  show "''state'' \<notin> set (Object_keys providerExtra) \<Longrightarrow>
         ''state'' \<notin> set (Object_keys callExtra) \<Longrightarrow>
         map_of params ''state'' = Some (Some st)"
    by (simp add: key)
qed

lemma buildAuthorizationUrl_stored_state:
  "storage_get (flowStorage (snd (buildAuthorizationUrl pf rnd provider storage options))) STATE
     = Some (nextState rnd)"
  by (simp add: buildAuthorizationUrl_def Let_def storage_get_def storage_set_def
        generateState_def split: option.splits)

text \<open>
  What the code does guarantee: when \<open>buildAuthorizationUrl\<close> returns a URL, the URL
  carries \<open>response_type=code\<close>, \<open>code_challenge_method=S256\<close> and a \<open>state\<close>
  equal to the state the same call wrote into flow storage, each of them provided that
  neither the provider-level nor the call-level additional parameters use that key. The
  state in flow storage is always the one generated by the call.
\<close>

theorem buildAuthorizationUrl_required_params:
  assumes "buildAuthorizationUrl pf rnd provider storage options = (Some u, storage')"
  shows "(''response_type'' \<notin> set (Object_keys (additionalAuthParams provider))
          \<and> ''response_type'' \<notin> set (Object_keys (additionalParams options)) \<longrightarrow>
            searchParams_get (searchParams u) ''response_type'' = Some ''code'')
       \<and> (''code_challenge_method'' \<notin> set (Object_keys (additionalAuthParams provider))
          \<and> ''code_challenge_method'' \<notin> set (Object_keys (additionalParams options)) \<longrightarrow>
            searchParams_get (searchParams u) ''code_challenge_method'' = Some ''S256'')
       \<and> (''state'' \<notin> set (Object_keys (additionalAuthParams provider))
          \<and> ''state'' \<notin> set (Object_keys (additionalParams options)) \<longrightarrow>
            searchParams_get (searchParams u) ''state''
              = storage_get (flowStorage storage') STATE)
       \<and> storage_get (flowStorage storage') STATE = Some (nextState rnd)"
proof -
  let ?params = "spread
              (spread
                 [(''client_id'', Some (clientId provider)),
                  (''response_type'', Some ''code''),
                  (''scope'', Some (join '' '' (scopes provider))),
                  (''redirect_uri'', Some (redirectUri provider)),
                  (''code_challenge'', Some (codeChallenge (generatePKCEPair pf rnd))),
                  (''code_challenge_method'', Some PKCE_CHALLENGE_METHOD),
                  (''state'', Some (generateState rnd)),
                  (''prompt'', map_option prompt_text (prompt options))]
                 (additionalAuthParams provider))
              (additionalParams options)"
  have url: "buildUrl pf (authorizationEndpoint (endpoints provider)) ?params = Some u"
    using assms by (simp add: buildAuthorizationUrl_def Let_def)
  have stored: "storage_get (flowStorage storage') STATE = Some (nextState rnd)"
    using buildAuthorizationUrl_stored_state [of pf rnd provider storage options] assms
    by simp
  note ps = authorization_params [OF refl, where providerExtra = "additionalAuthParams provider"
              and callExtra = "additionalParams options"]
  note get = buildUrl_param [OF url ps(1)]
  show ?thesis
    using get [OF ps(2)] get [OF ps(3)] get [OF ps(4)] stored
    by (simp add: generateState_def)
qed

lemma mock_authorization_url:
  "buildAuthorizationUrl mockPlatform mockRandomness mockProvider emptyStorage overridingOptions
   = (Some \<lparr>origin = ''https://auth.example.com'', pathname = ''/authorize'',
             searchParams =
               [(''client_id'', ''test-client-id''),
                (''response_type'', ''code''),
                (''scope'', ''openid profile email''),
                (''redirect_uri'', ''http://localhost:3000/callback''),
                (''code_challenge'', ''challenge-of-random-verifier''),
                (''code_challenge_method'', ''plain''),
                (''state'', ''fixed-state'')]\<rparr>,
      \<lparr>tokenStorage = Map.empty,
       flowStorage = [CODE_VERIFIER \<mapsto> ''random-verifier'', STATE \<mapsto> ''random-state'',
                      REDIRECT_URI \<mapsto> ''http://localhost:3000/callback'']\<rparr>)"
  by (simp add: buildAuthorizationUrl_def Let_def mockPlatform_def mockRandomness_def
        mockProvider_def emptyStorage_def overridingOptions_def generatePKCEPair_def
        generateCodeVerifier_def generateCodeChallenge_def generateState_def
        PKCE_CHALLENGE_METHOD_def storage_set_def buildUrl_def mockURL_def
        callbackHref_def errorHref_def noCodeHref_def)

text \<open>
  Claim C7 says that the URL always carries \<open>code_challenge_method=S256\<close> and a
  \<open>state\<close> equal to the one written into flow storage, also when additional
  parameters are given. The code spreads the additional parameters after the fixed ones,
  so they replace them: with the call-level additional parameters \<open>state\<close> and
  \<open>code_challenge_method\<close>, the URL carries \<open>code_challenge_method=plain\<close>, while
  the challenge sent is still the S256 one, and a \<open>state\<close> that is not the one
  written into flow storage, so that \<open>validateState\<close> will refuse the callback that
  echoes it.
\<close>

theorem buildAuthorizationUrl_additional_params_override:
  "(case buildAuthorizationUrl mockPlatform mockRandomness mockProvider emptyStorage
           overridingOptions of
      (None, storage') \<Rightarrow> False
    | (Some u, storage') \<Rightarrow>
        searchParams_get (searchParams u) ''code_challenge_method'' = Some ''plain''
        \<and> searchParams_get (searchParams u) ''code_challenge_method'' \<noteq> Some ''S256''
        \<and> searchParams_get (searchParams u) ''code_challenge''
            = Some (generateCodeChallenge mockPlatform ''random-verifier'')
        \<and> searchParams_get (searchParams u) ''state'' = Some ''fixed-state''
        \<and> storage_get (flowStorage storage') STATE = Some ''random-state''
        \<and> searchParams_get (searchParams u) ''state''
            \<noteq> storage_get (flowStorage storage') STATE
        \<and> \<not> validateState (searchParams_get (searchParams u) ''state'')
               (storage_get (flowStorage storage') STATE))"
  by (simp add: mock_authorization_url searchParams_get_def storage_get_def
        validateState_iff generateCodeChallenge_def)
     (simp add: mockPlatform_def)

lemma mock_authorization_url_extra:
  "buildAuthorizationUrl mockPlatform mockRandomness mockProvider emptyStorage extraOptions
   = (Some extraUrl,
      \<lparr>tokenStorage = Map.empty,
       flowStorage = [CODE_VERIFIER \<mapsto> ''random-verifier'', STATE \<mapsto> ''random-state'',
                      REDIRECT_URI \<mapsto> ''http://localhost:3000/callback'']\<rparr>)"
  by (simp add: buildAuthorizationUrl_def Let_def mockPlatform_def mockRandomness_def
        mockProvider_def emptyStorage_def extraOptions_def generatePKCEPair_def
        generateCodeVerifier_def generateCodeChallenge_def generateState_def
        PKCE_CHALLENGE_METHOD_def storage_set_def buildUrl_def mockURL_def
        callbackHref_def errorHref_def noCodeHref_def extraUrl_def)

theorem buildAuthorizationUrl_required_params_witness:
  "searchParams_get (searchParams extraUrl) ''response_type'' = Some ''code''
   \<and> searchParams_get (searchParams extraUrl) ''code_challenge_method'' = Some ''S256''
   \<and> searchParams_get (searchParams extraUrl) ''state'' = Some ''random-state''
   \<and> nextState mockRandomness = ''random-state''"
  using buildAuthorizationUrl_required_params [OF mock_authorization_url_extra]
  by (simp add: mockProvider_def extraOptions_def) (simp add: mockRandomness_def)

subsection \<open>The refresh coordinator\<close>


lemma refresh_in_flight: "refreshPromise co = Some p \<Longrightarrow> refresh co = (p, co)"
  by (simp add: refresh_def)

lemma refresh_idle:
  "refreshPromise co = None \<Longrightarrow>
   refresh co = (invocations co,
                 co\<lparr>refreshPromise := Some (invocations co), invocations := invocations co + 1\<rparr>)"
  by (simp add: refresh_def Let_def)

lemma refresh_calls_in_flight:
  "refreshPromise co = Some p \<Longrightarrow> refresh_calls n co = (replicate n p, co)"
  by (induction n) (simp_all add: refresh_in_flight)

lemma refresh_calls_idle:
  "refreshPromise co = None \<Longrightarrow>
   refresh_calls (Suc n) co =
     (replicate (Suc n) (invocations co),
      co\<lparr>refreshPromise := Some (invocations co), invocations := invocations co + 1\<rparr>)"
  by (simp add: refresh_idle refresh_calls_in_flight)

text \<open>
  Claim C4. When calls of \<open>refresh\<close> overlap (the first finds the coordinator idle,
  and the later ones start before its promise has settled), \<open>refreshFn\<close> is invoked
  exactly once and every caller holds the same promise, so that all receive the one
  outcome, fulfilled or rejected. \<open>isRefreshing\<close> is false before the first call, true
  after each of the calls, and false once the promise has settled; a call after that
  invokes \<open>refreshFn\<close> again, on a new promise.
\<close>

theorem coordinator_single_flight:
  assumes "refreshPromise co = None"
      and "refresh_calls (Suc n) co = (promises, busy)"
      and "idle = settle outcome busy"
      and "refresh idle = (next_promise, again)"
  shows "\<not> isRefreshing co
       \<and> length promises = Suc n
       \<and> (\<forall>p \<in> set promises. p = hd promises)
       \<and> invocations busy = invocations co + 1
       \<and> (\<forall>m \<le> n. isRefreshing (snd (refresh_calls (Suc m) co))
                    \<and> invocations (snd (refresh_calls (Suc m) co)) = invocations co + 1)
       \<and> \<not> isRefreshing idle
       \<and> (\<forall>p \<in> set promises. settled idle p = Some outcome)
       \<and> invocations idle = invocations co + 1
       \<and> invocations again = invocations co + 2
       \<and> next_promise \<notin> set promises
       \<and> isRefreshing again"
proof -
  let ?p = "invocations co"
  have calls: "promises = replicate (Suc n) ?p"
       "busy = co\<lparr>refreshPromise := Some ?p, invocations := ?p + 1\<rparr>"
    using refresh_calls_idle [OF assms(1), of n] assms(2) by simp_all
  have during: "isRefreshing (snd (refresh_calls (Suc m) co))
                \<and> invocations (snd (refresh_calls (Suc m) co)) = ?p + 1" for m
    using refresh_calls_idle [OF assms(1), of m] by (simp add: isRefreshing_def)
  have idle: "idle = co\<lparr>refreshPromise := None, invocations := ?p + 1,
                         settled := (settled co)(?p \<mapsto> outcome)\<rparr>"
    using assms(3) calls(2) by (simp add: settle_def)
  then have "refreshPromise idle = None" by simp
  from refresh_idle [OF this] assms(4) idle
  have again: "next_promise = ?p + 1" "invocations again = ?p + 2" "isRefreshing again"
    by (auto simp: isRefreshing_def)
  show ?thesis
    using assms(1) calls during idle again
    by (simp add: isRefreshing_def)
qed

theorem coordinator_single_flight_witness:
  "refresh_calls 3 (newCoordinator :: TokenState option Coordinator)
     = ([0, 0, 0], newCoordinator\<lparr>refreshPromise := Some 0, invocations := 1\<rparr>)
   \<and> invocations (snd (refresh_calls 3 (newCoordinator :: TokenState option Coordinator))) = 1
   \<and> settled (settle (Rejected ''Refresh failed'')
                 (snd (refresh_calls 3 (newCoordinator :: TokenState option Coordinator)))) 0
       = Some (Rejected ''Refresh failed'')
   \<and> invocations (snd (refresh (settle (Rejected ''Refresh failed'')
                 (snd (refresh_calls 3 (newCoordinator :: TokenState option Coordinator)))))) = 2"
proof -
  have calls: "refresh_calls (Suc 2) (newCoordinator :: TokenState option Coordinator)
     = ([0, 0, 0], newCoordinator\<lparr>refreshPromise := Some 0, invocations := 1\<rparr>)"
    by (simp add: refresh_def Let_def newCoordinator_def numeral_2_eq_2)
  have three: "(3::nat) = Suc 2" by simp
  obtain q again where
    again: "refresh (settle (Rejected ''Refresh failed'')
              (newCoordinator\<lparr>refreshPromise := Some 0, invocations := 1\<rparr>
                 :: TokenState option Coordinator)) = (q, again)"
    by (cases "refresh (settle (Rejected ''Refresh failed'')
              (newCoordinator\<lparr>refreshPromise := Some 0, invocations := 1\<rparr>
                 :: TokenState option Coordinator))")
  have idle: "refreshPromise (newCoordinator :: TokenState option Coordinator) = None"
    by (simp add: newCoordinator_def)
  from coordinator_single_flight [OF idle calls refl again]
  show ?thesis
    using calls again unfolding three
    by (simp add: newCoordinator_def)
qed

subsection \<open>The state of the client\<close>


lemma snd_statement [simp]: "snd (statement outcome cl) = cl"
  by (cases outcome) simp_all

lemma andThen_preserves:
  assumes "P (snd r)" and "\<And>a cl. P cl \<Longrightarrow> P (snd (f a cl))"
  shows "P (snd (andThen r f))"
proof (cases r)
  case (Pair c cl)
  with assms show ?thesis by (cases c) simp_all
qed

lemma snd_setState [simp]:
  "snd (setState cfg updates cl) = cl\<lparr>c_state := updates (c_state cl)\<rparr>"
proof -
  have "snd (andThen r (\<lambda>_ cl2. statement (g cl2) cl2)) = snd r" for r :: "unit Completion \<times> ('a, 'b) Client" and g
  proof (cases r)
    case (Pair c cl)
    then show ?thesis by (cases c) simp_all
  qed
  then show ?thesis by (simp add: setState_def Let_def)
qed

lemma snd_handleError [simp]:
  "snd (handleError cfg err cl) = cl\<lparr>c_state := (c_state cl)\<lparr>error := Some err, isLoading := False\<rparr>\<rparr>"
proof -
  have "snd (andThen r (\<lambda>_ cl2. statement (g cl2) cl2)) = snd r" for r :: "unit Completion \<times> ('a, 'b) Client" and g
  proof (cases r)
    case (Pair c cl)
    then show ?thesis by (cases c) simp_all
  qed
  then show ?thesis by (simp add: handleError_def)
qed

lemma loadUserFromTokens_authenticated:
  "isAuthenticated (c_state (snd (loadUserFromTokens cfg tokens cl)))"
  by (simp add: loadUserFromTokens_def Let_def)

lemma jwt_authenticated_loadUser: "jwt_authenticated (snd (loadUserFromTokens cfg tokens cl))"
  by (simp add: jwt_authenticated_def loadUserFromTokens_authenticated)

lemma jwt_authenticated_fields:
  "jwt_authenticated (cl\<lparr>c_storage := a\<rparr>) = jwt_authenticated cl"
  "jwt_authenticated (cl\<lparr>c_requests := b\<rparr>) = jwt_authenticated cl"
  "jwt_authenticated (cl\<lparr>c_coordinator := c\<rparr>) = jwt_authenticated cl"
  "jwt_authenticated (cl\<lparr>c_isInitialized := d\<rparr>) = jwt_authenticated cl"
  "jwt_authenticated (cl\<lparr>c_listeners := e\<rparr>) = jwt_authenticated cl"
  by (simp_all add: jwt_authenticated_def)

lemma jwt_authenticated_loading:
  "jwt_authenticated (snd (setState cfg (\<lambda>s. s\<lparr>isLoading := b\<rparr>) cl)) = jwt_authenticated cl"
  by (simp add: jwt_authenticated_def)

lemma jwt_authenticated_handleError:
  "jwt_authenticated (snd (handleError cfg err cl)) = jwt_authenticated cl"
  by (simp add: jwt_authenticated_def)

lemma jwt_authenticated_refreshToken:
  assumes "jwt_authenticated cl"
  shows "jwt_authenticated (snd (client_refreshToken pf cfg cl))"
proof -
  obtain p co where c: "refresh (c_coordinator cl) = (p, co)"
    by (cases "refresh (c_coordinator cl)")
  obtain result storage' sent where
    r: "refreshAccessToken pf (cfg_provider cfg) (c_storage cl) (cfg_httpClient cfg)
          = (result, storage', sent)"
    by (cases "refreshAccessToken pf (cfg_provider cfg) (c_storage cl) (cfg_httpClient cfg)")
  show ?thesis
  proof (cases "isRefreshing (c_coordinator cl)")
    case True
    with c assms show ?thesis
      by (simp add: client_refreshToken_def jwt_authenticated_fields)
  next
    case False
    show ?thesis
    proof (cases result)
      case None
      with c r False assms show ?thesis
        by (simp add: client_refreshToken_def jwt_authenticated_fields)
    next
      case (Some tokens)
      have "jwt_authenticated (snd (andThen (loadUserFromTokens cfg tokens cl')
                (\<lambda>_ cl2. andThen
                   (statement (optional_call (cfg_onTokenRefresh cfg) tokens) cl2)
                   (\<lambda>_ cl3. (Returned True, cl3)))))" for cl'
        by (rule andThen_preserves [where P = jwt_authenticated, OF jwt_authenticated_loadUser])
           (rule andThen_preserves [where P = jwt_authenticated], simp_all)
      with c r False Some show ?thesis
        by (simp add: client_refreshToken_def)
    qed
  qed
qed

lemma jwt_authenticated_handleCallback:
  assumes "jwt_authenticated cl"
  shows "jwt_authenticated (snd (handleCallback pf cfg given cl))"
proof (cases "isAuthenticated (c_state cl)")
  case True
  with assms show ?thesis by (simp add: handleCallback_def)
next
  case False
  have step: "jwt_authenticated (snd
     (case exchangeCodeForTokens pf (cfg_provider cfg) (c_storage cl0) (cfg_httpClient cfg) given of
        (result, storage1, sent) \<Rightarrow>
          (let cl1 = cl0\<lparr>c_storage := storage1, c_requests := c_requests cl0 @ sent\<rparr>
           in case result of
                Failure err \<Rightarrow> handleError cfg err cl1
              | Success tokens preAuthPath \<Rightarrow> loadUserFromTokens cfg tokens cl1)))"
    if "jwt_authenticated cl0" for cl0
    using that
    by (auto simp: Let_def jwt_authenticated_def loadUserFromTokens_def
          split: prod.splits ExchangeResult.splits)
  have first: "jwt_authenticated (snd (setState cfg (\<lambda>s. s\<lparr>isLoading := True\<rparr>) cl))"
    using assms by (simp add: jwt_authenticated_def)
  show ?thesis
    using False andThen_preserves [of jwt_authenticated, OF first step]
    by (simp add: handleCallback_def)
qed

lemma jwt_authenticated_getAccessToken:
  assumes "jwt_authenticated cl"
  shows "jwt_authenticated (snd (getAccessToken pf cfg cl))"
proof -
  have after: "jwt_authenticated (snd
        (if \<not> refreshed then (Returned None, cl1)
         else (case getStoredTokens (c_storage cl1) of
                 Some newTokens \<Rightarrow> (Returned (Some (accessToken newTokens)), cl1)
               | None \<Rightarrow> (Returned None, cl1))))"
    if "jwt_authenticated cl1" for refreshed and cl1 :: "('a, 'b) Client"
    using that by (simp split: option.splits)
  note r = andThen_preserves [of jwt_authenticated,
             OF jwt_authenticated_refreshToken [OF assms, of pf cfg] after]
  show ?thesis
    using assms r by (simp add: getAccessToken_def Let_def split: option.splits)
qed

lemma jwt_authenticated_initialize:
  assumes "jwt_authenticated cl"
  shows "jwt_authenticated (snd (initialize pf cfg cl))"
proof (cases "c_isInitialized cl")
  case True
  with assms show ?thesis by (simp add: initialize_def)
next
  case False
  let ?refreshed = "andThen (client_refreshToken pf cfg cl)
                           (\<lambda>refreshed cl1.
                              if \<not> refreshed then
                                setState cfg (\<lambda>s. s\<lparr>isLoading := False\<rparr>)
                                  (cl1\<lparr>c_storage := clearTokens (c_storage cl1)\<rparr>)
                              else setState cfg (\<lambda>s. s\<lparr>isLoading := False\<rparr>) cl1)"
  have refreshed: "jwt_authenticated (snd ?refreshed)"
    by (rule andThen_preserves [of jwt_authenticated,
               OF jwt_authenticated_refreshToken [OF assms]])
       (simp add: jwt_authenticated_def)
  let ?body = "if isCallbackUrl pf (redirectUri (cfg_provider cfg)) None
           then handleCallback pf cfg None cl
           else
             (case getStoredTokens (c_storage cl) of
                None \<Rightarrow> setState cfg (\<lambda>s. s\<lparr>isLoading := False\<rparr>) cl
              | Some tokens \<Rightarrow>
                  (case expiresAt tokens of
                     None \<Rightarrow> loadUserFromTokens cfg tokens cl
                   | Some e \<Rightarrow>
                       if e \<noteq> 0 \<and> e < Date_now pf then ?refreshed
                       else loadUserFromTokens cfg tokens cl))"
  have body: "jwt_authenticated (snd ?body)"
    using assms refreshed jwt_authenticated_handleCallback [OF assms, of pf cfg None]
    by (simp add: jwt_authenticated_def loadUserFromTokens_def Let_def split: option.splits)
  have "jwt_authenticated (snd (andThen ?body (\<lambda>_ cl1. (Returned (), cl1\<lparr>c_isInitialized := True\<rparr>))))"
    by (rule andThen_preserves [of jwt_authenticated, OF body])
       (simp add: jwt_authenticated_fields)
  with False show ?thesis by (simp add: initialize_def)
qed

lemma jwt_authenticated_call:
  assumes "jwt_authenticated cl"
  shows "jwt_authenticated (call cfg c cl)"
proof (cases c)
  case (Initialize pf)
  with assms show ?thesis by (simp add: jwt_authenticated_initialize)
next
  case (Authorize pf rnd options)
  with assms show ?thesis
    by (simp add: client_authorize_def jwt_authenticated_fields split: prod.splits option.splits)
next
  case (HandleCallback pf given)
  with assms show ?thesis by (simp add: jwt_authenticated_handleCallback)
next
  case (RefreshToken pf)
  with assms show ?thesis by (simp add: jwt_authenticated_refreshToken)
next
  case (GetAccessToken pf)
  with assms show ?thesis by (simp add: jwt_authenticated_getAccessToken)
next
  case (Logout pf options)
  with assms show ?thesis
    by (simp add: client_logout_def jwt_authenticated_def
          split: prod.splits Navigation.splits)
next
  case (Subscribe listener)
  with assms show ?thesis by (simp add: subscribe_def jwt_authenticated_fields)
next
  case (Unsubscribe i)
  with assms show ?thesis by (simp add: unsubscribe_def jwt_authenticated_fields)
qed

text \<open>
  Claim C8, as amended. In every reachable state of a client, a decoded JWT payload is
  present only if \<open>isAuthenticated\<close> is true. (The converse fails: the state is
  authenticated as soon as tokens are loaded, with or without an ID token.)
\<close>

theorem reachable_jwt_implies_authenticated:
  assumes "reachable cfg cl"
  shows "jwt (c_state cl) \<noteq> None \<longrightarrow> isAuthenticated (c_state cl)"
proof -
  from assms have "jwt_authenticated cl"
  proof (induction rule: reachable.induct)
    case (reachable_new storage)
    show ?case by (simp add: jwt_authenticated_def createOAuthClient_def)
  next
    case (reachable_call cl answers c)
    then show ?case by (simp add: jwt_authenticated_call)
  qed
  then show ?thesis by (simp add: jwt_authenticated_def)
qed

lemma reachable_clientAfterCallback: "reachable cfg (clientAfterCallback cfg)"
proof -
  have "reachable cfg (call (cfg\<lparr>cfg_httpClient := cfg_httpClient cfg\<rparr>)
                         (HandleCallback mockPlatform None) (createOAuthClient mockStorage))"
    by (rule reachable_call) (rule reachable_new)
  then show ?thesis by (simp add: clientAfterCallback_def)
qed

lemma clientAfterCallback_state:
  "cfg_provider cfg = mockProvider \<Longrightarrow> cfg_httpClient cfg = createMockHttpClient 200 data \<Longrightarrow>
   cfg_getUser cfg = None \<Longrightarrow> cfg_onAuthStateChange cfg = None \<Longrightarrow>
   c_state (clientAfterCallback cfg) =
     \<lparr>isAuthenticated = True, isLoading = False,
      jwt = (case truthy (id_token data) of Some t \<Rightarrow> cfg_jwtDecode cfg t | None \<Rightarrow> None),
      user = None, error = None\<rparr>"
  by (simp add: clientAfterCallback_def handleCallback_def createOAuthClient_def Let_def
        setState_def mock_first_exchange loadUserFromTokens_def decodeJwt_def
        parseTokenResponse_def split: option.splits)

text \<open>
  Claim C8 as stated fails: after the callback is handled with a token response that
  has no ID token, the client is authenticated and its JWT is null.
\<close>

theorem authenticated_without_jwt_counterexample:
  "reachable noIdTokenConfig (clientAfterCallback noIdTokenConfig)
   \<and> isAuthenticated (c_state (clientAfterCallback noIdTokenConfig))
   \<and> jwt (c_state (clientAfterCallback noIdTokenConfig)) = None"
  using clientAfterCallback_state [of noIdTokenConfig "mockTokenResponse\<lparr>id_token := None\<rparr>"]
  by (simp add: reachable_clientAfterCallback) (simp add: noIdTokenConfig_def)

theorem reachable_jwt_implies_authenticated_witness:
  "jwt (c_state (clientAfterCallback mockConfig)) = Some ''mock-id-token''
   \<and> isAuthenticated (c_state (clientAfterCallback mockConfig))"
proof -
  have "c_state (clientAfterCallback mockConfig) =
     \<lparr>isAuthenticated = True, isLoading = False,
      jwt = Some ''mock-id-token'', user = None, error = None\<rparr>"
    using clientAfterCallback_state [of mockConfig mockTokenResponse]
    by (simp add: mockConfig_def mockTokenResponse_def)
  then have j: "jwt (c_state (clientAfterCallback mockConfig)) = Some ''mock-id-token''"
    by simp
  with reachable_jwt_implies_authenticated [OF reachable_clientAfterCallback [of mockConfig]]
  show ?thesis by simp
qed

subsection \<open>Reading the access token\<close>




lemma callbacks_return_fields:
  "c_listeners cl' = c_listeners cl \<Longrightarrow> callbacks_return cfg cl' = callbacks_return cfg cl"
  by (simp add: callbacks_return_def)























end
